theory Spec2Isabelle
  imports Main
begin

section \<open>Go values shared by the two packages\<close>

text \<open>
  \<^verbatim>\<open>os.Getenv\<close> gives the value of a variable and the empty string when the
  variable is unset, so the process environment is a total function on names. Every
  function that calls \<^verbatim>\<open>os.Getenv\<close> takes the environment of the moment of the call.
\<close>

type_synonym environ = "string \<Rightarrow> string"

text \<open>A Go \<^verbatim>\<open>error\<close> value that is not nil, with its message.\<close>

datatype error = Error string

fun error_string :: "error \<Rightarrow> string" where
  "error_string (Error msg) = msg"

text \<open>A call either returns or panics; a panic carries its message.\<close>

datatype 'a outcome = Returns 'a | Panics string

definition nil_dereference :: string where
  "nil_dereference = ''runtime error: invalid memory address or nil pointer dereference''"

section \<open>Package notification: data\<close>

text \<open>\<^verbatim>\<open>type slack struct { token, channel, username string }\<close>\<close>

record slack =
  token :: string
  channel :: string
  username :: string

text \<open>\<^verbatim>\<open>type MessageTemplateParam struct { JobName, Namespace, Log string }\<close>\<close>

record MessageTemplateParam =
  JobName :: string
  Namespace :: string
  Log :: string

text \<open>
  The fields of the Slack client library's structs that the package reads or writes:
  \<^verbatim>\<open>slackapi.Attachment{Color, Title, Text}\<close>,
  \<^verbatim>\<open>slackapi.FileUploadParameters{Title, Content, Filetype, Channels}\<close> (its
  \<^verbatim>\<open>Title\<close> is \<open>upload_Title\<close> here, the name being taken by the attachment) and
  \<^verbatim>\<open>slackapi.File{Name, Permalink}\<close> (its \<^verbatim>\<open>Name\<close> is \<open>file_Name\<close>).
\<close>

record Attachment =
  Color :: string
  Title :: string
  Text :: string

record FileUploadParameters =
  upload_Title :: string
  Content :: string
  Filetype :: string
  Channels :: "string list"

record File =
  file_Name :: string
  Permalink :: string

text \<open>
  The arguments of one \<^verbatim>\<open>api.PostMessage\<close> call: the channel and what the three
  options \<^verbatim>\<open>MsgOptionText(text, escape)\<close>, \<^verbatim>\<open>MsgOptionAttachments\<close> and
  \<^verbatim>\<open>MsgOptionUsername\<close> carry.
\<close>

record PostMessageParameters =
  post_channel :: string
  post_text :: string
  post_escape :: bool
  post_attachments :: "Attachment list"
  post_username :: string

text \<open>
  The chat backend is outside the program: what it answers to a request is a parameter.
  \<open>UploadFile_response api tok params\<close> is the answer to \<^verbatim>\<open>slackapi.New(tok).UploadFile(params)\<close>
  (an error, or the file's metadata), \<open>PostMessage_response api tok req\<close> the answer to
  \<^verbatim>\<open>slackapi.New(tok).PostMessage(...)\<close> (an error, or the channel id and the timestamp).
\<close>

record slack_api =
  UploadFile_response :: "string \<Rightarrow> FileUploadParameters \<Rightarrow> error + File"
  PostMessage_response :: "string \<Rightarrow> PostMessageParameters \<Rightarrow> error + string \<times> string"

section \<open>Package monitoring: data\<close>

text \<open>
  \<^verbatim>\<open>statsd.ServiceCheckStatus\<close> and the fields of \<^verbatim>\<open>statsd.ServiceCheck\<close> that the
  package sets (\<^verbatim>\<open>Name\<close> and \<^verbatim>\<open>Tags\<close> are \<open>sc_Name\<close> and \<open>sc_Tags\<close> here).
\<close>

datatype ServiceCheckStatus = Ok | Warn | Critical | Unknown

record ServiceCheck =
  sc_Name :: string
  Status :: ServiceCheckStatus
  Message :: string
  Hostname :: string
  sc_Tags :: "string list"

text \<open>
  The two public fields of \<^verbatim>\<open>statsd.Client\<close> that \<^verbatim>\<open>newDatadog\<close> writes. A
  \<^verbatim>\<open>*statsd.Client\<close> is a \<open>Client option\<close>: \<open>None\<close> is the nil pointer.
\<close>

record Client =
  Tags :: "string list"
  client_Namespace :: string

text \<open>\<^verbatim>\<open>type datadog struct { client *statsd.Client }\<close>\<close>

record datadog =
  client :: "Client option"

text \<open>
  Modelled from the spec: the type \<^verbatim>\<open>JobInfo\<close> is declared in a file of the package
  that is not among the sources. The spec gives it as \<^verbatim>\<open>JobInfo{Name, Namespace}\<close>, and
  the source reads \<^verbatim>\<open>jobInfo.Name\<close> and \<^verbatim>\<open>jobInfo.Namespace\<close> (\<open>job_Name\<close> and
  \<open>job_Namespace\<close> here).
\<close>

record JobInfo =
  job_Name :: string
  job_Namespace :: string

text \<open>
  The statsd library is outside the program as well. \<open>statsd_New lib addr\<close> is the pair
  \<^verbatim>\<open>(client, err)\<close> that \<^verbatim>\<open>statsd.New(addr)\<close> returns;
  \<open>statsd_ServiceCheck lib c sc\<close> is what the method \<^verbatim>\<open>(*Client).ServiceCheck\<close> does
  when it is called on the receiver \<open>c\<close>, which Go allows to be nil: it returns nil
  (\<open>Inr ()\<close>) or an error, or it panics.
\<close>

record statsd_lib =
  statsd_New :: "string \<Rightarrow> Client option \<times> error option"
  statsd_ServiceCheck :: "Client option \<Rightarrow> ServiceCheck \<Rightarrow> (error + unit) outcome"

section \<open>Effects\<close>

text \<open>
  What a call does to the outside world, in the order it does it: the requests to the
  chat backend, the service checks handed to the statsd client, and the lines written
  with klog (the format string and its arguments).
\<close>

datatype event =
    Slack_UploadFile string FileUploadParameters
  | Slack_PostMessage string PostMessageParameters
  | Statsd_ServiceCheck "Client option" ServiceCheck
  | Klog_Errorf string "string list"
  | Klog_Infof string "string list"

section \<open>Templates\<close>

text \<open>
  \<^verbatim>\<open>getSlackMessage\<close> parses the constant \<^verbatim>\<open>SlackMessageTemplate\<close> with Go's
  \<^verbatim>\<open>html/template\<close> and executes it on the parameter. The constant, byte for byte
  (the raw string literal starts and ends with a line feed):
\<close>

definition SlackMessageTemplate :: string where
  "SlackMessageTemplate =
     ''\<newline>*JobName*: {{.JobName}}\<newline>{{if .Namespace}} *Namespace*: {{.Namespace}} {{end}}\<newline>{{if .Log }} *Loglink*: {{.Log}} {{end}}\<newline>''"

text \<open>
  The part of the template language that the constant uses: text, the action
  \<^verbatim>\<open>{{.Field}}\<close>, and \<^verbatim>\<open>{{if .Field}} ... {{end}}\<close>. The lexer cuts the input at the
  delimiters \<^verbatim>\<open>{{\<close> and \<^verbatim>\<open>}}\<close>: text outside them, an action inside.
\<close>

datatype item = ItemText string | ItemAction string

fun lex_template :: "bool \<Rightarrow> string \<Rightarrow> string \<Rightarrow> error + item list" where
  "lex_template inAction acc [] =
     (if inAction then Inl (Error ''template: slack: unclosed action'')
      else Inr (if acc = [] then [] else [ItemText (rev acc)]))"
| "lex_template inAction acc [c] = lex_template inAction (c # acc) []"
| "lex_template inAction acc (c # d # cs) =
     (if \<not> inAction \<and> c = CHR ''{'' \<and> d = CHR ''{'' then
        (case lex_template True [] cs of
           Inl err \<Rightarrow> Inl err
         | Inr items \<Rightarrow> Inr ((if acc = [] then [] else [ItemText (rev acc)]) @ items))
      else if inAction \<and> c = CHR ''}'' \<and> d = CHR ''}'' then
        (case lex_template False [] cs of
           Inl err \<Rightarrow> Inl err
         | Inr items \<Rightarrow> Inr (ItemAction (rev acc) # items))
      else lex_template inAction (c # acc) (d # cs))"

text \<open>\<^verbatim>\<open>strings.Split\<close> at one separator byte, and the words of an action between spaces.\<close>

fun split_at :: "char \<Rightarrow> string \<Rightarrow> string list" where
  "split_at sep [] = [[]]"
| "split_at sep (c # cs) =
     (if c = sep then [] # split_at sep cs
      else (case split_at sep cs of
              [] \<Rightarrow> [[c]]
            | w # ws \<Rightarrow> (c # w) # ws))"

definition action_words :: "string \<Rightarrow> string list" where
  "action_words s = filter (\<lambda>w. w \<noteq> []) (split_at (CHR '' '') s)"

text \<open>
  The parse tree: a \<^verbatim>\<open>TextNode\<close>, an \<^verbatim>\<open>ActionNode\<close> whose pipeline is one field
  (\<open>FieldNode\<close>), and an \<^verbatim>\<open>IfNode\<close> whose pipeline is one field and which has no
  else branch. The words of an action decide what it is (\<open>tpl_token\<close>).
\<close>

datatype node =
    TextNode string
  | FieldNode string
  | IfNode string "node list"

datatype tpl_token = TokText string | TokField string | TokIf string | TokEnd

definition action_token :: "string \<Rightarrow> error + tpl_token" where
  "action_token s =
     (case action_words s of
        [w] \<Rightarrow>
          (if w = ''end'' then Inr TokEnd
           else (case w of
                   c # f \<Rightarrow> if c = CHR ''.'' \<and> f \<noteq> [] then Inr (TokField f)
                            else Inl (Error ''template: slack: unsupported action'')
                 | [] \<Rightarrow> Inl (Error ''template: slack: missing value for command'')))
      | [k, w] \<Rightarrow>
          (if k = ''if'' then
             (case w of
                c # f \<Rightarrow> if c = CHR ''.'' \<and> f \<noteq> [] then Inr (TokIf f)
                         else Inl (Error ''template: slack: unsupported action'')
              | [] \<Rightarrow> Inl (Error ''template: slack: missing value for if''))
           else Inl (Error ''template: slack: unsupported action''))
      | _ \<Rightarrow> Inl (Error ''template: slack: unsupported action''))"

fun tokens :: "item list \<Rightarrow> error + tpl_token list" where
  "tokens [] = Inr []"
| "tokens (ItemText t # items) =
     (case tokens items of Inl err \<Rightarrow> Inl err | Inr ts \<Rightarrow> Inr (TokText t # ts))"
| "tokens (ItemAction a # items) =
     (case action_token a of
        Inl err \<Rightarrow> Inl err
      | Inr t \<Rightarrow> (case tokens items of Inl err \<Rightarrow> Inl err | Inr ts \<Rightarrow> Inr (t # ts)))"

text \<open>
  The tree is built with a stack of the open \<^verbatim>\<open>if\<close> blocks: each frame holds the
  field of the \<^verbatim>\<open>if\<close> and the nodes read before it, last first.
\<close>

fun build :: "tpl_token list \<Rightarrow> (string \<times> node list) list \<Rightarrow> node list \<Rightarrow> error + node list" where
  "build [] [] acc = Inr (rev acc)"
| "build [] (frame # stack) acc = Inl (Error ''template: slack: unexpected EOF'')"
| "build (TokText t # ts) stack acc = build ts stack (TextNode t # acc)"
| "build (TokField f # ts) stack acc = build ts stack (FieldNode f # acc)"
| "build (TokIf f # ts) stack acc = build ts ((f, acc) # stack) []"
| "build (TokEnd # ts) [] acc = Inl (Error ''template: slack: unexpected {{end}}'')"
| "build (TokEnd # ts) ((f, outer) # stack) acc = build ts stack (IfNode f (rev acc) # outer)"

definition template_Parse :: "string \<Rightarrow> error + node list" where
  "template_Parse text =
     (case lex_template False [] text of
        Inl err \<Rightarrow> Inl err
      | Inr items \<Rightarrow>
          (case tokens items of
             Inl err \<Rightarrow> Inl err
           | Inr ts \<Rightarrow> build ts [] []))"

text \<open>
  Execution. A field of the parameter is looked up by its name; a name the struct does
  not have is an execution error.
\<close>

definition field_value :: "MessageTemplateParam \<Rightarrow> string \<Rightarrow> string option" where
  "field_value p f =
     (if f = ''JobName'' then Some (JobName p)
      else if f = ''Namespace'' then Some (Namespace p)
      else if f = ''Log'' then Some (Log p)
      else None)"

text \<open>
  \<^verbatim>\<open>html/template\<close> rewrites every action before the first execution: an action
  that stands in HTML text (outside any tag, which is where all three actions of the
  constant stand, since its text has no \<^verbatim>\<open><\<close>) gets the escaper
  \<^verbatim>\<open>htmlEscaper\<close> at the end of its pipeline. For a string value that is
  \<^verbatim>\<open>htmlReplacer(s, htmlReplacementTable, true)\<close>: a byte with an entry in the table
  is replaced by the entry, every other byte is kept (the table ends at \<^verbatim>\<open>'>'\<close>, and
  the bytes of a longer UTF-8 sequence are all above it). The entry for the byte 0 is
  the replacement character U+FFFD, in UTF-8.
\<close>

definition htmlReplacementTable :: "char \<Rightarrow> string option" where
  "htmlReplacementTable c =
     (if c = CHR 0x00 then Some [CHR 0xEF, CHR 0xBF, CHR 0xBD]
      else if c = CHR 0x22 then Some ''&#34;''
      else if c = CHR ''&'' then Some ''&amp;''
      else if c = CHR 0x27 then Some ''&#39;''
      else if c = CHR ''+'' then Some ''&#43;''
      else if c = CHR ''<'' then Some ''&lt;''
      else if c = CHR ''>'' then Some ''&gt;''
      else None)"

fun htmlReplacer :: "string \<Rightarrow> string" where
  "htmlReplacer [] = []"
| "htmlReplacer (c # cs) =
     (case htmlReplacementTable c of
        None \<Rightarrow> c # htmlReplacer cs
      | Some repl \<Rightarrow> repl @ htmlReplacer cs)"

definition htmlEscaper :: "string \<Rightarrow> string" where
  "htmlEscaper s = htmlReplacer s"

text \<open>The output of a list of nodes is the outputs in order, up to the first error.\<close>

fun sequence :: "(error + string) list \<Rightarrow> error + string" where
  "sequence [] = Inr []"
| "sequence (Inl err # rs) = Inl err"
| "sequence (Inr s # rs) = (case sequence rs of Inl err \<Rightarrow> Inl err | Inr t \<Rightarrow> Inr (s @ t))"

text \<open>A string is true in an \<^verbatim>\<open>if\<close> when it is not empty.\<close>

fun execute_node :: "MessageTemplateParam \<Rightarrow> node \<Rightarrow> error + string" where
  "execute_node p (TextNode t) = Inr t"
| "execute_node p (FieldNode f) =
     (case field_value p f of
        None \<Rightarrow> Inl (Error (''template: slack: can't evaluate field '' @ f))
      | Some v \<Rightarrow> Inr (htmlEscaper v))"
| "execute_node p (IfNode f body) =
     (case field_value p f of
        None \<Rightarrow> Inl (Error (''template: slack: can't evaluate field '' @ f))
      | Some v \<Rightarrow> if v \<noteq> [] then sequence (map (execute_node p) body) else Inr [])"

definition template_Execute :: "node list \<Rightarrow> MessageTemplateParam \<Rightarrow> error + string" where
  "template_Execute tpl p = sequence (map (execute_node p) tpl)"

text \<open>\<^verbatim>\<open>func getSlackMessage(messageParam MessageTemplateParam) (slackMessage string, err error)\<close>\<close>

definition getSlackMessage :: "MessageTemplateParam \<Rightarrow> error + string" where
  "getSlackMessage messageParam =
     (case template_Parse SlackMessageTemplate of
        Inl err \<Rightarrow> Inl err
      | Inr tpl \<Rightarrow>
          (case template_Execute tpl messageParam of
             Inl err \<Rightarrow> Inl err
           | Inr b \<Rightarrow> Inr b))"

section \<open>Package notification: operations\<close>

text \<open>
  \<^verbatim>\<open>var slackColors = map[string]string{...}\<close>, and the read \<^verbatim>\<open>m[k]\<close> of a Go map,
  which gives the empty string for a key the map does not have.
\<close>

definition slackColors :: "string \<Rightarrow> string option" where
  "slackColors = [''Normal'' \<mapsto> ''good'', ''Warning'' \<mapsto> ''warning'', ''Danger'' \<mapsto> ''danger'']"

definition map_index :: "(string \<Rightarrow> string option) \<Rightarrow> string \<Rightarrow> string" where
  "map_index m k = (case m k of None \<Rightarrow> [] | Some v \<Rightarrow> v)"

text \<open>
  \<^verbatim>\<open>func NewSlack() Slack\<close>: it panics when \<^verbatim>\<open>SLACK_TOKEN\<close> is empty, and otherwise
  returns the struct filled from the environment.
\<close>

definition NewSlack :: "environ \<Rightarrow> slack outcome" where
  "NewSlack env =
     (let tok = env ''SLACK_TOKEN'' in
      if tok = [] then Panics ''please set slack token''
      else
        (let chan = env ''SLACK_CHANNEL'';
             user = env ''SLACK_USERNAME''
         in Returns \<lparr>token = tok, channel = chan, username = user\<rparr>))"

text \<open>
  \<^verbatim>\<open>func (s slack) notify(attachment slackapi.Attachment) (err error)\<close>: one
  \<^verbatim>\<open>PostMessage\<close> request, then one log line; the error of the request is the result.
\<close>

definition notify :: "slack_api \<Rightarrow> slack \<Rightarrow> Attachment \<Rightarrow> (error + unit) \<times> event list" where
  "notify api s attachment =
     (let req = \<lparr>post_channel = channel s, post_text = [], post_escape = True,
                 post_attachments = [attachment], post_username = username s\<rparr>
      in case PostMessage_response api (token s) req of
           Inl err \<Rightarrow>
             (Inl err,
              [Slack_PostMessage (token s) req,
               Klog_Errorf ''Send messageParam failed %s\<newline>'' [error_string err]])
         | Inr (channelID, timestamp) \<Rightarrow>
             (Inr (),
              [Slack_PostMessage (token s) req,
               Klog_Infof ''Message successfully sent to channel %s at %s'' [channelID, timestamp]]))"

text \<open>
  \<^verbatim>\<open>func (s slack) uploadLog(param MessageTemplateParam) (file *slackapi.File, err error)\<close>:
  one \<^verbatim>\<open>UploadFile\<close> request, then one log line.
\<close>

definition uploadLog :: "slack_api \<Rightarrow> slack \<Rightarrow> MessageTemplateParam \<Rightarrow> (error + File) \<times> event list" where
  "uploadLog api s param =
     (let params = \<lparr>upload_Title = Namespace param @ ''_'' @ JobName param,
                    Content = Log param, Filetype = ''txt'', Channels = [channel s]\<rparr>
      in case UploadFile_response api (token s) params of
           Inl err \<Rightarrow>
             (Inl err,
              [Slack_UploadFile (token s) params,
               Klog_Errorf ''File uploadLog failed %s\<newline>'' [error_string err]])
         | Inr file \<Rightarrow>
             (Inr file,
              [Slack_UploadFile (token s) params,
               Klog_Infof ''File uploadLog successfully %s'' [file_Name file]]))"

text \<open>
  The three notifications. The receiver is a value, so the assignment to \<^verbatim>\<open>s.channel\<close>
  changes the copy of the call only. Each reads its channel variable with
  \<^verbatim>\<open>os.Getenv\<close> when it is called.
\<close>

definition NotifyStart ::
  "environ \<Rightarrow> slack_api \<Rightarrow> slack \<Rightarrow> MessageTemplateParam \<Rightarrow> (error + unit) \<times> event list" where
  "NotifyStart env api s messageParam =
     (let succeedChannel = env ''SLACK_SUCCEED_CHANNEL'';
          s1 = (if succeedChannel \<noteq> [] then s\<lparr>channel := succeedChannel\<rparr> else s)
      in case getSlackMessage messageParam of
           Inl err \<Rightarrow> (Inl err, [Klog_Errorf ''Template execute failed %s\<newline>'' [error_string err]])
         | Inr slackMessage \<Rightarrow>
             notify api s1
               \<lparr>Color = map_index slackColors ''Normal'', Title = ''Job Start'', Text = slackMessage\<rparr>)"

definition NotifySuccess ::
  "environ \<Rightarrow> slack_api \<Rightarrow> slack \<Rightarrow> MessageTemplateParam \<Rightarrow> (error + unit) \<times> event list" where
  "NotifySuccess env api s messageParam =
     (let succeedChannel = env ''SLACK_SUCCEED_CHANNEL'';
          s1 = (if succeedChannel \<noteq> [] then s\<lparr>channel := succeedChannel\<rparr> else s)
      in case (if Log messageParam \<noteq> [] then
                 (case uploadLog api s1 messageParam of
                    (Inl err, evs) \<Rightarrow>
                      (Inl err, evs @ [Klog_Errorf ''Template execute failed %s\<newline>'' [error_string err]])
                  | (Inr file, evs) \<Rightarrow> (Inr (messageParam\<lparr>Log := Permalink file\<rparr>), evs))
               else (Inr messageParam, [])) of
           (Inl err, evs) \<Rightarrow> (Inl err, evs)
         | (Inr messageParam1, evs) \<Rightarrow>
             (case getSlackMessage messageParam1 of
                Inl err \<Rightarrow>
                  (Inl err, evs @ [Klog_Errorf ''Template execute failed %s\<newline>'' [error_string err]])
              | Inr slackMessage \<Rightarrow>
                  (case notify api s1
                          \<lparr>Color = map_index slackColors ''Normal'', Title = ''Job Success'',
                           Text = slackMessage\<rparr> of
                     (r, evs1) \<Rightarrow> (r, evs @ evs1))))"

definition NotifyFailed ::
  "environ \<Rightarrow> slack_api \<Rightarrow> slack \<Rightarrow> MessageTemplateParam \<Rightarrow> (error + unit) \<times> event list" where
  "NotifyFailed env api s messageParam =
     (let failedChannel = env ''SLACK_FAILED_CHANNEL'';
          s1 = (if failedChannel \<noteq> [] then s\<lparr>channel := failedChannel\<rparr> else s)
      in case (if Log messageParam \<noteq> [] then
                 (case uploadLog api s1 messageParam of
                    (Inl err, evs) \<Rightarrow>
                      (Inl err, evs @ [Klog_Errorf ''Template execute failed %s\<newline>'' [error_string err]])
                  | (Inr file, evs) \<Rightarrow> (Inr (messageParam\<lparr>Log := Permalink file\<rparr>), evs))
               else (Inr messageParam, [])) of
           (Inl err, evs) \<Rightarrow> (Inl err, evs)
         | (Inr messageParam1, evs) \<Rightarrow>
             (case getSlackMessage messageParam1 of
                Inl err \<Rightarrow>
                  (Inl err, evs @ [Klog_Errorf ''Template execute failed %s\<newline>'' [error_string err]])
              | Inr slackMessage \<Rightarrow>
                  (case notify api s1
                          \<lparr>Color = map_index slackColors ''Danger'', Title = ''Job Failed'',
                           Text = slackMessage\<rparr> of
                     (r, evs1) \<Rightarrow> (r, evs @ evs1))))"

section \<open>Package monitoring: operations\<close>

definition defaultStatsAddrUDS :: string where
  "defaultStatsAddrUDS = ''unix:///var/run/datadog/dsd.socket''"

definition hostName :: string where
  "hostName = ''kube-job-notifier''"

definition serviceCheckName :: string where
  "serviceCheckName = ''kube_job_notifier.job.status''"

text \<open>
  \<^verbatim>\<open>func newDatadog() datadog\<close>. An error of \<^verbatim>\<open>statsd.New\<close> is logged and the function
  goes on with the client it got. The two assignments \<^verbatim>\<open>client.Tags = ...\<close> and
  \<^verbatim>\<open>client.Namespace = ...\<close> write through the pointer: on the nil pointer they panic.
\<close>

definition newDatadog :: "environ \<Rightarrow> statsd_lib \<Rightarrow> datadog outcome \<times> event list" where
  "newDatadog env lib =
     (case statsd_New lib defaultStatsAddrUDS of
        (client0, err) \<Rightarrow>
          (let evs = (case err of
                        Some e \<Rightarrow> [Klog_Errorf ''Failed create statsd client. error: %v'' [error_string e]]
                      | None \<Rightarrow> []);
               tags = env ''DD_TAGS''
           in case (if tags \<noteq> [] then
                      (case client0 of
                         None \<Rightarrow> Panics nil_dereference
                       | Some c \<Rightarrow> Returns (Some (c\<lparr>Tags := [tags]\<rparr>)))
                    else Returns client0) of
                Panics msg \<Rightarrow> (Panics msg, evs)
              | Returns client1 \<Rightarrow>
                  (let namespace = env ''DD_NAMESPACE''
                   in case (if namespace \<noteq> [] then
                              (case client1 of
                                 None \<Rightarrow> Panics nil_dereference
                               | Some c \<Rightarrow> Returns (Some (c\<lparr>client_Namespace := namespace\<rparr>)))
                            else Returns client1) of
                        Panics msg \<Rightarrow> (Panics msg, evs)
                      | Returns client2 \<Rightarrow> (Returns \<lparr>client = client2\<rparr>, evs))))"

text \<open>
  \<^verbatim>\<open>func (d datadog) SuccessEvent(jobInfo JobInfo) (err error)\<close> and \<^verbatim>\<open>FailEvent\<close>. The
  method \<^verbatim>\<open>getJobName\<close> of \<^verbatim>\<open>JobInfo\<close> is declared with the type, outside the
  sources; the two functions take it as the parameter \<open>jobName\<close>. The call
  \<^verbatim>\<open>d.client.ServiceCheck(sc)\<close> hands the pointer to the library, nil or not.
\<close>

definition SuccessEvent ::
  "(JobInfo \<Rightarrow> string) \<Rightarrow> statsd_lib \<Rightarrow> datadog \<Rightarrow> JobInfo \<Rightarrow> (error + unit) outcome \<times> event list" where
  "SuccessEvent jobName lib d jobInfo =
     (let sc = \<lparr>sc_Name = serviceCheckName, Status = Ok, Message = ''Job succeed'',
                Hostname = hostName,
                sc_Tags = [''job_name:'' @ jobName jobInfo, ''namespace:'' @ job_Namespace jobInfo]\<rparr>
      in case statsd_ServiceCheck lib (client d) sc of
           Panics msg \<Rightarrow> (Panics msg, [Statsd_ServiceCheck (client d) sc])
         | Returns (Inl err) \<Rightarrow>
             (Returns (Inl err),
              [Statsd_ServiceCheck (client d) sc,
               Klog_Errorf ''Failed subscribe custom event. error: %v'' [error_string err]])
         | Returns (Inr u) \<Rightarrow>
             (Returns (Inr ()),
              [Statsd_ServiceCheck (client d) sc,
               Klog_Infof ''Event subscribe successfully %s'' [job_Name jobInfo]]))"

definition FailEvent ::
  "(JobInfo \<Rightarrow> string) \<Rightarrow> statsd_lib \<Rightarrow> datadog \<Rightarrow> JobInfo \<Rightarrow> (error + unit) outcome \<times> event list" where
  "FailEvent jobName lib d jobInfo =
     (let sc = \<lparr>sc_Name = serviceCheckName, Status = Critical, Message = ''Job failed'',
                Hostname = hostName,
                sc_Tags = [''job_name:'' @ jobName jobInfo, ''namespace:'' @ job_Namespace jobInfo]\<rparr>
      in case statsd_ServiceCheck lib (client d) sc of
           Panics msg \<Rightarrow> (Panics msg, [Statsd_ServiceCheck (client d) sc])
         | Returns (Inl err) \<Rightarrow>
             (Returns (Inl err),
              [Statsd_ServiceCheck (client d) sc,
               Klog_Errorf ''Failed subscribe custom event. error: %v'' [error_string err]])
         | Returns (Inr u) \<Rightarrow>
             (Returns (Inr ()),
              [Statsd_ServiceCheck (client d) sc,
               Klog_Infof ''Event subscribe successfully %s'' [jobName jobInfo]]))"

section \<open>Reading a trace\<close>

text \<open>
  The notions the properties below are stated with. \<open>with_channel\<close> is the statement
  \<^verbatim>\<open>if c != "" { s.channel = c }\<close> that opens each notification; \<open>upload_request\<close> and
  \<open>post_request\<close> are the arguments that \<^verbatim>\<open>uploadLog\<close> and \<^verbatim>\<open>notify\<close> send.
\<close>

definition with_channel :: "string \<Rightarrow> slack \<Rightarrow> slack" where
  "with_channel override s = (if override \<noteq> [] then s\<lparr>channel := override\<rparr> else s)"

definition upload_request :: "slack \<Rightarrow> MessageTemplateParam \<Rightarrow> FileUploadParameters" where
  "upload_request s p =
     \<lparr>upload_Title = Namespace p @ ''_'' @ JobName p, Content = Log p,
      Filetype = ''txt'', Channels = [channel s]\<rparr>"

definition post_request :: "slack \<Rightarrow> Attachment \<Rightarrow> PostMessageParameters" where
  "post_request s att =
     \<lparr>post_channel = channel s, post_text = [], post_escape = True,
      post_attachments = [att], post_username = username s\<rparr>"

text \<open>The channels an event addresses, and the channels of a whole trace in order.\<close>

fun event_channels :: "event \<Rightarrow> string list" where
  "event_channels (Slack_UploadFile tok params) = Channels params"
| "event_channels (Slack_PostMessage tok req) = [post_channel req]"
| "event_channels e = []"

definition channels_used :: "event list \<Rightarrow> string list" where
  "channels_used evs = concat (map event_channels evs)"

text \<open>The upload requests, the post requests and the service checks of a trace, in order.\<close>

fun uploads :: "event list \<Rightarrow> (string \<times> FileUploadParameters) list" where
  "uploads [] = []"
| "uploads (Slack_UploadFile tok params # evs) = (tok, params) # uploads evs"
| "uploads (e # evs) = uploads evs"

fun posts :: "event list \<Rightarrow> (string \<times> PostMessageParameters) list" where
  "posts [] = []"
| "posts (Slack_PostMessage tok req # evs) = (tok, req) # posts evs"
| "posts (e # evs) = posts evs"

fun service_checks :: "event list \<Rightarrow> ServiceCheck list" where
  "service_checks [] = []"
| "service_checks (Statsd_ServiceCheck c sc # evs) = sc # service_checks evs"
| "service_checks (e # evs) = service_checks evs"

text \<open>
  \<open>posts_follow_upload uploaded evs\<close>: every post request of the trace has an upload
  request somewhere before it (\<open>uploaded\<close> says whether one came before the trace).
\<close>

fun posts_follow_upload :: "bool \<Rightarrow> event list \<Rightarrow> bool" where
  "posts_follow_upload uploaded [] = True"
| "posts_follow_upload uploaded (Slack_UploadFile tok params # evs) = posts_follow_upload True evs"
| "posts_follow_upload uploaded (Slack_PostMessage tok req # evs) =
     (uploaded \<and> posts_follow_upload uploaded evs)"
| "posts_follow_upload uploaded (e # evs) = posts_follow_upload uploaded evs"

section \<open>Reading a rendered message\<close>

definition line_feed :: char where
  "line_feed = CHR 0x0A"

text \<open>The lines of a text are its pieces between line feeds; the line feeds of a text.\<close>

definition lines_of :: "string \<Rightarrow> string list" where
  "lines_of s = split_at line_feed s"


text \<open>
  The entities that the escaper writes, and \<open>well_escaped\<close>: no byte of the text is one
  that the escaper replaces, except \<^verbatim>\<open>&\<close> where it starts one of the entities.
\<close>

definition html_entities :: "string list" where
  "html_entities = [''&#34;'', ''&amp;'', ''&#39;'', ''&#43;'', ''&lt;'', ''&gt;'']"

fun well_escaped :: "string \<Rightarrow> bool" where
  "well_escaped [] = True"
| "well_escaped (c # cs) =
     ((if c = CHR ''&'' then (\<exists>e \<in> set html_entities. take (length e) (c # cs) = e)
       else htmlReplacementTable c = None)
      \<and> well_escaped cs)"

section \<open>The job name\<close>

text \<open>
  Modelled from the spec: the method \<^verbatim>\<open>getJobName\<close> of \<^verbatim>\<open>JobInfo\<close> is not among the
  sources. The spec says that the accessor "strips any generated suffix" and is to be
  treated as "strip a trailing generated-ID suffix if present", with the example that
  \<^verbatim>\<open>etl-job-27x9k\<close> becomes \<^verbatim>\<open>etl-job\<close>. It does not say how a generated suffix is
  told from the rest of a name; here the suffix is the last hyphen of the name and what
  follows it, and a name with no hyphen has none.
\<close>

definition getJobName :: "JobInfo \<Rightarrow> string" where
  "getJobName jobInfo =
     (let name = job_Name jobInfo
      in if CHR ''-'' \<in> set name
         then rev (tl (dropWhile (\<lambda>c. c \<noteq> CHR ''-'') (rev name)))
         else name)"

section \<open>A statsd library that guards the nil client\<close>

text \<open>
  The library that the package imports, \<^verbatim>\<open>github.com/DataDog/datadog-go/statsd\<close>,
  guards its reporting methods against the nil receiver: \<^verbatim>\<open>ServiceCheck\<close> called on a
  nil \<^verbatim>\<open>*Client\<close> returns the error \<^verbatim>\<open>ErrNoClient\<close> ("statsd client is nil") and
  dereferences nothing. \<open>guarded_statsd\<close> is a library with that guard whose
  \<^verbatim>\<open>New\<close> fails; on a client that is not nil its \<^verbatim>\<open>ServiceCheck\<close> succeeds.
\<close>

definition guarded_statsd :: statsd_lib where
  "guarded_statsd =
     \<lparr>statsd_New = (\<lambda>addr. (None, Some (Error ''dial failed''))),
      statsd_ServiceCheck =
        (\<lambda>c sc. case c of
                   None \<Rightarrow> Returns (Inl (Error ''statsd client is nil''))
                 | Some cl \<Rightarrow> Returns (Inr ()))\<rparr>"

section \<open>Concrete inputs\<close>

text \<open>
  The inputs at which the properties below are evaluated: an empty environment, an
  environment with the token and the default channel, the same with each override set,
  a chat backend that accepts every request and one that refuses every upload, and
  message parameters: a plain one, one with markup in its fields, and one whose
  \<^verbatim>\<open>Log\<close> holds a line feed followed by what reads as a \<^verbatim>\<open>Namespace\<close> line.
\<close>

definition env_empty :: environ where
  "env_empty = (\<lambda>name. [])"

definition env_base :: environ where
  "env_base = env_empty(''SLACK_TOKEN'' := ''xoxb-1'', ''SLACK_CHANNEL'' := ''general'',
                        ''SLACK_USERNAME'' := ''notifier'')"

definition env_overrides :: environ where
  "env_overrides = env_base(''SLACK_SUCCEED_CHANNEL'' := ''jobs-ok'',
                            ''SLACK_FAILED_CHANNEL'' := ''jobs-ko'')"

definition api_accepting :: slack_api where
  "api_accepting =
     \<lparr>UploadFile_response =
        (\<lambda>tok params. Inr \<lparr>file_Name = upload_Title params,
                             Permalink = ''https://files.example/F1''\<rparr>),
      PostMessage_response = (\<lambda>tok req. Inr (post_channel req, ''1700000000.000100''))\<rparr>"

definition api_refusing_uploads :: slack_api where
  "api_refusing_uploads =
     \<lparr>UploadFile_response = (\<lambda>tok params. Inl (Error ''upload refused'')),
      PostMessage_response = (\<lambda>tok req. Inr (post_channel req, ''1700000000.000100''))\<rparr>"

definition slack_base :: slack where
  "slack_base = \<lparr>token = ''xoxb-1'', channel = ''general'', username = ''notifier''\<rparr>"

definition param_with_log :: MessageTemplateParam where
  "param_with_log = \<lparr>JobName = ''etl-job'', Namespace = ''data'', Log = ''line 1''\<rparr>"

definition param_markup :: MessageTemplateParam where
  "param_markup = \<lparr>JobName = ''a<b>&c'', Namespace = [], Log = [CHR 0x22, CHR ''x'', CHR 0x27]\<rparr>"

definition param_forged_line :: MessageTemplateParam where
  "param_forged_line =
     \<lparr>JobName = ''etl-job'', Namespace = [], Log = ''l1\<newline> *Namespace*: prod''\<rparr>"

definition job_example :: JobInfo where
  "job_example = \<lparr>job_Name = ''etl-job-27x9k'', job_Namespace = ''data''\<rparr>"

section \<open>The template and the rendered text\<close>

text \<open>What the parser makes of the constant, and what execution writes for it.\<close>

lemma template_Parse_SlackMessageTemplate:
  "template_Parse SlackMessageTemplate = Inr
    [TextNode ''\<newline>*JobName*: '', FieldNode ''JobName'', TextNode ''\<newline>'',
     IfNode ''Namespace'' [TextNode '' *Namespace*: '', FieldNode ''Namespace'', TextNode '' ''],
     TextNode ''\<newline>'',
     IfNode ''Log'' [TextNode '' *Loglink*: '', FieldNode ''Log'', TextNode '' ''],
     TextNode ''\<newline>'']"
  by (simp add: template_Parse_def SlackMessageTemplate_def action_token_def action_words_def)

lemma getSlackMessage_eq:
  "getSlackMessage p =
     Inr (''\<newline>*JobName*: '' @ htmlEscaper (JobName p) @ ''\<newline>'' @
          (if Namespace p \<noteq> [] then '' *Namespace*: '' @ htmlEscaper (Namespace p) @ '' '' else []) @
          ''\<newline>'' @
          (if Log p \<noteq> [] then '' *Loglink*: '' @ htmlEscaper (Log p) @ '' '' else []) @
          ''\<newline>'')"
  by (simp add: getSlackMessage_def template_Parse_SlackMessageTemplate template_Execute_def
      field_value_def)

lemma getSlackMessage_total: "\<exists>m. getSlackMessage p = Inr m"
  by (simp add: getSlackMessage_eq)

section \<open>Lines and escapes\<close>

text \<open>Splitting at line feeds, and what the escaper does to a field value.\<close>

lemma split_at_append_sep:
  "sep \<notin> set xs \<Longrightarrow> split_at sep (xs @ sep # ys) = xs # split_at sep ys"
  by (induction xs) auto

lemma htmlReplacer_append: "htmlReplacer (xs @ ys) = htmlReplacer xs @ htmlReplacer ys"
  by (induction xs) (auto split: option.split)

lemma line_feed_htmlReplacementTable:
  "htmlReplacementTable c = Some e \<Longrightarrow> c \<noteq> line_feed \<and> line_feed \<notin> set e"
  by (auto simp add: htmlReplacementTable_def line_feed_def split: if_splits)

lemma filter_line_feed_htmlReplacer:
  "filter (\<lambda>c. c = line_feed) (htmlReplacer v) = filter (\<lambda>c. c = line_feed) v"
proof (induction v)
  case Nil
  then show ?case by simp
next
  case (Cons c v)
  show ?case
  proof (cases "htmlReplacementTable c")
    case None
    with Cons show ?thesis by simp
  next
    case (Some e)
    from line_feed_htmlReplacementTable [OF Some]
    have "c \<noteq> line_feed" and "filter (\<lambda>c. c = line_feed) e = []"
      by (auto simp add: filter_empty_conv)
    with Some Cons show ?thesis by simp
  qed
qed

lemma line_feed_htmlEscaper:
  "line_feed \<in> set (htmlEscaper v) \<longleftrightarrow> line_feed \<in> set v"
proof -
  have "set (filter (\<lambda>c. c = line_feed) (htmlReplacer v)) = set (filter (\<lambda>c. c = line_feed) v)"
    by (simp only: filter_line_feed_htmlReplacer)
  then show ?thesis by (auto simp add: htmlEscaper_def)
qed

lemma well_escaped_append:
  "well_escaped xs \<Longrightarrow> well_escaped ys \<Longrightarrow> well_escaped (xs @ ys)"
proof (induction xs)
  case Nil
  then show ?case by simp
next
  case (Cons c cs)
  have "take (length e) (c # cs @ ys) = e" if "take (length e) (c # cs) = e" for e
  proof -
    from that have "length (take (length e) (c # cs)) = length e"
      by simp
    then have "length e \<le> length (c # cs)"
      by (simp only: length_take)
    then have "length e - length (c # cs) = 0"
      by simp
    then have "take (length e) ((c # cs) @ ys) = take (length e) (c # cs)"
      by (simp only: take_append take_0 append_Nil2)
    with that show ?thesis by simp
  qed
  with Cons show ?case by (auto split: if_splits)
qed

lemma well_escaped_entities:
  "htmlReplacementTable c = Some e \<Longrightarrow> well_escaped e"
  by (auto simp add: htmlReplacementTable_def html_entities_def split: if_splits)

lemma well_escaped_htmlReplacer: "well_escaped (htmlReplacer v)"
proof (induction v)
  case Nil
  then show ?case by simp
next
  case (Cons c v)
  show ?case
  proof (cases "htmlReplacementTable c")
    case None
    then have "c \<noteq> CHR ''&''" by (auto simp add: htmlReplacementTable_def)
    with None Cons show ?thesis by simp
  next
    case (Some e)
    with Cons well_escaped_entities [OF Some] show ?thesis
      by (simp add: well_escaped_append)
  qed
qed

lemma well_escaped_no_markup:
  "well_escaped s \<Longrightarrow> c \<in> set s \<Longrightarrow> c = CHR ''&'' \<or> htmlReplacementTable c = None"
  by (induction s) (auto split: if_splits)

lemma htmlReplacer_contains:
  assumes "c \<in> set v" and "htmlReplacementTable c = Some e"
  shows "\<exists>pre post. htmlReplacer v = pre @ e @ post"
proof -
  from assms(1) obtain xs ys where "v = xs @ c # ys"
    by (auto simp add: in_set_conv_decomp)
  then have "htmlReplacer v = htmlReplacer xs @ e @ htmlReplacer ys"
    using assms(2) by (simp add: htmlReplacer_append)
  then show ?thesis by blast
qed

lemma rendered_shape:
  "getSlackMessage p =
     Inr (line_feed # (''*JobName*: '' @ htmlEscaper (JobName p)) @
          line_feed # (if Namespace p \<noteq> [] then '' *Namespace*: '' @ htmlEscaper (Namespace p) @ '' '' else []) @
          line_feed # (if Log p \<noteq> [] then '' *Loglink*: '' @ htmlEscaper (Log p) @ '' '' else []) @
          [line_feed])"
  by (simp add: getSlackMessage_eq line_feed_def)

lemma lines_of_shape:
  assumes "line_feed \<notin> set a" and "line_feed \<notin> set b" and "line_feed \<notin> set c"
  shows "lines_of (line_feed # a @ line_feed # b @ line_feed # c @ [line_feed]) = [[], a, b, c, []]"
proof -
  have "split_at line_feed (c @ [line_feed]) = [c, []]"
    using split_at_append_sep [OF assms(3), of "[]"] by simp
  then have "split_at line_feed (b @ line_feed # c @ [line_feed]) = [b, c, []]"
    using split_at_append_sep [OF assms(2), of "c @ [line_feed]"] by simp
  then have "split_at line_feed (a @ line_feed # b @ line_feed # c @ [line_feed]) = [a, b, c, []]"
    using split_at_append_sep [OF assms(1), of "b @ line_feed # c @ [line_feed]"] by simp
  then show ?thesis by (simp add: lines_of_def)
qed

lemma rendered_lines:
  assumes "line_feed \<notin> set (JobName p) \<union> set (Namespace p) \<union> set (Log p)"
  shows "lines_of (projr (getSlackMessage p)) =
     [[], ''*JobName*: '' @ htmlEscaper (JobName p),
      if Namespace p \<noteq> [] then '' *Namespace*: '' @ htmlEscaper (Namespace p) @ '' '' else [],
      if Log p \<noteq> [] then '' *Loglink*: '' @ htmlEscaper (Log p) @ '' '' else [],
      []]"
proof -
  have a: "line_feed \<notin> set (''*JobName*: '' @ htmlEscaper (JobName p))"
    using assms by (simp add: line_feed_htmlEscaper) (simp add: line_feed_def)
  have b: "line_feed \<notin> set (if Namespace p \<noteq> [] then '' *Namespace*: '' @ htmlEscaper (Namespace p) @ '' '' else [])"
    using assms by (simp add: line_feed_htmlEscaper) (simp add: line_feed_def)
  have c: "line_feed \<notin> set (if Log p \<noteq> [] then '' *Loglink*: '' @ htmlEscaper (Log p) @ '' '' else [])"
    using assms by (simp add: line_feed_htmlEscaper) (simp add: line_feed_def)
  show ?thesis
    by (simp only: rendered_shape sum.sel lines_of_shape [OF a b c])
qed


lemma rendered_well_escaped: "well_escaped (projr (getSlackMessage p))"
  by (simp add: getSlackMessage_eq htmlReplacementTable_def htmlEscaper_def
      well_escaped_append well_escaped_htmlReplacer)

lemma rendered_contains:
  assumes "c \<in> set (JobName p) \<union> set (Namespace p) \<union> set (Log p)"
    and "htmlReplacementTable c = Some e"
  shows "\<exists>pre post. projr (getSlackMessage p) = pre @ e @ post"
proof -
  from assms(1) consider "c \<in> set (JobName p)" | "c \<in> set (Namespace p)" | "c \<in> set (Log p)"
    by blast
  then show ?thesis
  proof cases
    case 1
    from htmlReplacer_contains [OF 1 assms(2)] obtain x y
      where "htmlEscaper (JobName p) = x @ e @ y"
      by (auto simp add: htmlEscaper_def)
    then have "projr (getSlackMessage p) =
        (''\<newline>*JobName*: '' @ x) @ e @
        (y @ ''\<newline>'' @
          (if Namespace p \<noteq> [] then '' *Namespace*: '' @ htmlEscaper (Namespace p) @ '' '' else []) @
          ''\<newline>'' @
          (if Log p \<noteq> [] then '' *Loglink*: '' @ htmlEscaper (Log p) @ '' '' else []) @
          ''\<newline>'')"
      by (simp add: getSlackMessage_eq)
    then show ?thesis by blast
  next
    case 2
    then have nonempty: "Namespace p \<noteq> []" by auto
    from htmlReplacer_contains [OF 2 assms(2)] obtain x y
      where "htmlEscaper (Namespace p) = x @ e @ y"
      by (auto simp add: htmlEscaper_def)
    with nonempty have "projr (getSlackMessage p) =
        (''\<newline>*JobName*: '' @ htmlEscaper (JobName p) @ ''\<newline>'' @ '' *Namespace*: '' @ x) @ e @
        (y @ '' '' @ ''\<newline>'' @
          (if Log p \<noteq> [] then '' *Loglink*: '' @ htmlEscaper (Log p) @ '' '' else []) @
          ''\<newline>'')"
      by (simp add: getSlackMessage_eq)
    then show ?thesis by blast
  next
    case 3
    then have nonempty: "Log p \<noteq> []" by auto
    from htmlReplacer_contains [OF 3 assms(2)] obtain x y
      where "htmlEscaper (Log p) = x @ e @ y"
      by (auto simp add: htmlEscaper_def)
    with nonempty have "projr (getSlackMessage p) =
        (''\<newline>*JobName*: '' @ htmlEscaper (JobName p) @ ''\<newline>'' @
          (if Namespace p \<noteq> [] then '' *Namespace*: '' @ htmlEscaper (Namespace p) @ '' '' else []) @
          ''\<newline>'' @ '' *Loglink*: '' @ x) @ e @ (y @ '' '' @ ''\<newline>'')"
      by (simp add: getSlackMessage_eq)
    then show ?thesis by blast
  qed
qed


section \<open>The calls of the chat notifier\<close>

text \<open>Each call, case by case: what it returns and the trace it leaves.\<close>

lemma token_with_channel: "token (with_channel c s) = token s"
  by (simp add: with_channel_def)

lemma username_with_channel: "username (with_channel c s) = username s"
  by (simp add: with_channel_def)

lemma channel_with_channel: "channel (with_channel c s) = (if c \<noteq> [] then c else channel s)"
  by (simp add: with_channel_def)

lemma notify_failed:
  assumes "PostMessage_response api (token s) (post_request s att) = Inl err"
  shows "notify api s att =
           (Inl err, [Slack_PostMessage (token s) (post_request s att),
                      Klog_Errorf ''Send messageParam failed %s\<newline>'' [error_string err]])"
  using assms by (simp add: notify_def post_request_def)

lemma notify_sent:
  assumes "PostMessage_response api (token s) (post_request s att) = Inr (channelID, timestamp)"
  shows "notify api s att =
           (Inr (), [Slack_PostMessage (token s) (post_request s att),
                     Klog_Infof ''Message successfully sent to channel %s at %s''
                       [channelID, timestamp]])"
  using assms by (simp add: notify_def post_request_def)

lemma notify_events:
  "\<exists>line. snd (notify api s att) = [Slack_PostMessage (token s) (post_request s att), line] \<and>
          event_channels line = [] \<and> posts [line] = [] \<and> uploads [line] = [] \<and>
          (\<forall>b. posts_follow_upload b [line])"
proof (cases "PostMessage_response api (token s) (post_request s att)")
  case (Inl err)
  then show ?thesis by (simp add: notify_failed)
next
  case (Inr r)
  then show ?thesis by (cases r) (simp add: notify_sent)
qed

lemma uploadLog_failed:
  assumes "UploadFile_response api (token s) (upload_request s p) = Inl err"
  shows "uploadLog api s p =
           (Inl err, [Slack_UploadFile (token s) (upload_request s p),
                      Klog_Errorf ''File uploadLog failed %s\<newline>'' [error_string err]])"
  using assms by (simp add: uploadLog_def upload_request_def)

lemma uploadLog_done:
  assumes "UploadFile_response api (token s) (upload_request s p) = Inr f"
  shows "uploadLog api s p =
           (Inr f, [Slack_UploadFile (token s) (upload_request s p),
                       Klog_Infof ''File uploadLog successfully %s'' [file_Name f]])"
  using assms by (simp add: uploadLog_def upload_request_def)

lemma NotifyStart_eq:
  "NotifyStart env api s p =
     notify api (with_channel (env ''SLACK_SUCCEED_CHANNEL'') s)
       \<lparr>Color = ''good'', Title = ''Job Start'', Text = projr (getSlackMessage p)\<rparr>"
  by (simp add: NotifyStart_def with_channel_def getSlackMessage_eq map_index_def slackColors_def)

lemma NotifySuccess_no_log:
  assumes "Log p = []"
  shows "NotifySuccess env api s p =
           notify api (with_channel (env ''SLACK_SUCCEED_CHANNEL'') s)
             \<lparr>Color = ''good'', Title = ''Job Success'', Text = projr (getSlackMessage p)\<rparr>"
  using assms
  by (simp add: NotifySuccess_def with_channel_def getSlackMessage_eq map_index_def
      slackColors_def split: prod.split)

lemma NotifySuccess_upload_failed:
  assumes "Log p \<noteq> []"
    and "UploadFile_response api (token s)
           (upload_request (with_channel (env ''SLACK_SUCCEED_CHANNEL'') s) p) = Inl err"
  shows "NotifySuccess env api s p =
           (Inl err,
            [Slack_UploadFile (token s) (upload_request (with_channel (env ''SLACK_SUCCEED_CHANNEL'') s) p),
             Klog_Errorf ''File uploadLog failed %s\<newline>'' [error_string err],
             Klog_Errorf ''Template execute failed %s\<newline>'' [error_string err]])"
proof -
  let ?s1 = "with_channel (env ''SLACK_SUCCEED_CHANNEL'') s"
  have tok: "token ?s1 = token s" by (simp add: with_channel_def)
  have "uploadLog api ?s1 p =
          (Inl err, [Slack_UploadFile (token s) (upload_request ?s1 p),
                     Klog_Errorf ''File uploadLog failed %s\<newline>'' [error_string err]])"
    using uploadLog_failed [of api ?s1 p err] assms(2) by (simp add: token_with_channel)
  then show ?thesis
    using assms(1) unfolding NotifySuccess_def Let_def with_channel_def by simp
qed

lemma NotifySuccess_uploaded:
  assumes "Log p \<noteq> []"
    and "UploadFile_response api (token s)
           (upload_request (with_channel (env ''SLACK_SUCCEED_CHANNEL'') s) p) = Inr f"
  shows "NotifySuccess env api s p =
           (fst (notify api (with_channel (env ''SLACK_SUCCEED_CHANNEL'') s)
                   \<lparr>Color = ''good'', Title = ''Job Success'',
                    Text = projr (getSlackMessage (p\<lparr>Log := Permalink f\<rparr>))\<rparr>),
            [Slack_UploadFile (token s) (upload_request (with_channel (env ''SLACK_SUCCEED_CHANNEL'') s) p),
             Klog_Infof ''File uploadLog successfully %s'' [file_Name f]] @
            snd (notify api (with_channel (env ''SLACK_SUCCEED_CHANNEL'') s)
                   \<lparr>Color = ''good'', Title = ''Job Success'',
                    Text = projr (getSlackMessage (p\<lparr>Log := Permalink f\<rparr>))\<rparr>))"
proof -
  define s1 where "s1 = with_channel (env ''SLACK_SUCCEED_CHANNEL'') s"
  have s1: "(if env ''SLACK_SUCCEED_CHANNEL'' \<noteq> []
             then s\<lparr>channel := env ''SLACK_SUCCEED_CHANNEL''\<rparr> else s) = s1"
    by (simp add: s1_def with_channel_def)
  have tok: "token s1 = token s" by (simp add: s1_def with_channel_def)
  have up: "uploadLog api s1 p =
          (Inr f, [Slack_UploadFile (token s) (upload_request s1 p),
                   Klog_Infof ''File uploadLog successfully %s'' [file_Name f]])"
    using uploadLog_done [of api s1 p f] assms(2) by (simp add: s1_def token_with_channel)
  obtain m where m: "getSlackMessage (p\<lparr>Log := Permalink f\<rparr>) = Inr m"
    using getSlackMessage_total by blast
  have col: "map_index slackColors ''Normal'' = ''good''"
    by (simp add: map_index_def slackColors_def)
  have "NotifySuccess env api s p =
          (fst (notify api s1 \<lparr>Color = ''good'', Title = ''Job Success'', Text = m\<rparr>),
           [Slack_UploadFile (token s) (upload_request s1 p),
            Klog_Infof ''File uploadLog successfully %s'' [file_Name f]] @
           snd (notify api s1 \<lparr>Color = ''good'', Title = ''Job Success'', Text = m\<rparr>))"
    unfolding NotifySuccess_def Let_def s1
    using assms(1) by (simp add: up m col split: prod.split)
  then show ?thesis by (simp add: m s1_def)
qed

lemma NotifyFailed_no_log:
  assumes "Log p = []"
  shows "NotifyFailed env api s p =
           notify api (with_channel (env ''SLACK_FAILED_CHANNEL'') s)
             \<lparr>Color = ''danger'', Title = ''Job Failed'', Text = projr (getSlackMessage p)\<rparr>"
  using assms
  by (simp add: NotifyFailed_def with_channel_def getSlackMessage_eq map_index_def
      slackColors_def split: prod.split)

lemma NotifyFailed_upload_failed:
  assumes "Log p \<noteq> []"
    and "UploadFile_response api (token s)
           (upload_request (with_channel (env ''SLACK_FAILED_CHANNEL'') s) p) = Inl err"
  shows "NotifyFailed env api s p =
           (Inl err,
            [Slack_UploadFile (token s) (upload_request (with_channel (env ''SLACK_FAILED_CHANNEL'') s) p),
             Klog_Errorf ''File uploadLog failed %s\<newline>'' [error_string err],
             Klog_Errorf ''Template execute failed %s\<newline>'' [error_string err]])"
proof -
  let ?s1 = "with_channel (env ''SLACK_FAILED_CHANNEL'') s"
  have tok: "token ?s1 = token s" by (simp add: with_channel_def)
  have "uploadLog api ?s1 p =
          (Inl err, [Slack_UploadFile (token s) (upload_request ?s1 p),
                     Klog_Errorf ''File uploadLog failed %s\<newline>'' [error_string err]])"
    using uploadLog_failed [of api ?s1 p err] assms(2) by (simp add: token_with_channel)
  then show ?thesis
    using assms(1) unfolding NotifyFailed_def Let_def with_channel_def by simp
qed

lemma NotifyFailed_uploaded:
  assumes "Log p \<noteq> []"
    and "UploadFile_response api (token s)
           (upload_request (with_channel (env ''SLACK_FAILED_CHANNEL'') s) p) = Inr f"
  shows "NotifyFailed env api s p =
           (fst (notify api (with_channel (env ''SLACK_FAILED_CHANNEL'') s)
                   \<lparr>Color = ''danger'', Title = ''Job Failed'',
                    Text = projr (getSlackMessage (p\<lparr>Log := Permalink f\<rparr>))\<rparr>),
            [Slack_UploadFile (token s) (upload_request (with_channel (env ''SLACK_FAILED_CHANNEL'') s) p),
             Klog_Infof ''File uploadLog successfully %s'' [file_Name f]] @
            snd (notify api (with_channel (env ''SLACK_FAILED_CHANNEL'') s)
                   \<lparr>Color = ''danger'', Title = ''Job Failed'',
                    Text = projr (getSlackMessage (p\<lparr>Log := Permalink f\<rparr>))\<rparr>))"
proof -
  define s1 where "s1 = with_channel (env ''SLACK_FAILED_CHANNEL'') s"
  have s1: "(if env ''SLACK_FAILED_CHANNEL'' \<noteq> []
             then s\<lparr>channel := env ''SLACK_FAILED_CHANNEL''\<rparr> else s) = s1"
    by (simp add: s1_def with_channel_def)
  have tok: "token s1 = token s" by (simp add: s1_def with_channel_def)
  have up: "uploadLog api s1 p =
          (Inr f, [Slack_UploadFile (token s) (upload_request s1 p),
                   Klog_Infof ''File uploadLog successfully %s'' [file_Name f]])"
    using uploadLog_done [of api s1 p f] assms(2) by (simp add: s1_def token_with_channel)
  obtain m where m: "getSlackMessage (p\<lparr>Log := Permalink f\<rparr>) = Inr m"
    using getSlackMessage_total by blast
  have col: "map_index slackColors ''Danger'' = ''danger''"
    by (simp add: map_index_def slackColors_def)
  have "NotifyFailed env api s p =
          (fst (notify api s1 \<lparr>Color = ''danger'', Title = ''Job Failed'', Text = m\<rparr>),
           [Slack_UploadFile (token s) (upload_request s1 p),
            Klog_Infof ''File uploadLog successfully %s'' [file_Name f]] @
           snd (notify api s1 \<lparr>Color = ''danger'', Title = ''Job Failed'', Text = m\<rparr>))"
    unfolding NotifyFailed_def Let_def s1
    using assms(1) by (simp add: up m col split: prod.split)
  then show ?thesis by (simp add: m s1_def)
qed


section \<open>Traces of the notifications\<close>

text \<open>The requests of a trace, their channels, their order and their credentials.\<close>

lemma trace_notify:
  "channels_used (snd (notify api s att)) = [channel s]"
  "uploads (snd (notify api s att)) = []"
  "posts (snd (notify api s att)) = [(token s, post_request s att)]"
  "posts_follow_upload True (snd (notify api s att))"
  using notify_events [of api s att] by (auto simp add: channels_used_def post_request_def)

lemma channels_NotifyStart:
  "channels_used (snd (NotifyStart env api s p)) =
     [channel (with_channel (env ''SLACK_SUCCEED_CHANNEL'') s)]"
  by (simp add: NotifyStart_eq trace_notify)

lemma channels_NotifySuccess:
  "set (channels_used (snd (NotifySuccess env api s p))) =
     {channel (with_channel (env ''SLACK_SUCCEED_CHANNEL'') s)}"
proof (cases "Log p = []")
  case True
  then show ?thesis by (simp add: NotifySuccess_no_log trace_notify)
next
  case False
  let ?s1 = "with_channel (env ''SLACK_SUCCEED_CHANNEL'') s"
  show ?thesis
  proof (cases "UploadFile_response api (token s) (upload_request ?s1 p)")
    case (Inl err)
    with False show ?thesis
      by (simp add: NotifySuccess_upload_failed channels_used_def upload_request_def)
  next
    case (Inr f)
    with False have "channels_used (snd (NotifySuccess env api s p)) = [channel ?s1, channel ?s1]"
      using trace_notify(1) [of api ?s1]
      by (simp add: NotifySuccess_uploaded channels_used_def upload_request_def)
    then show ?thesis by simp
  qed
qed

lemma NotifySuccess_with_log:
  assumes "Log p \<noteq> []"
  shows "\<exists>tok params.
           uploads (snd (NotifySuccess env api s p)) = [(tok, params)] \<and>
           posts_follow_upload False (snd (NotifySuccess env api s p)) \<and>
           (case UploadFile_response api tok params of
              Inl err \<Rightarrow>
                fst (NotifySuccess env api s p) = Inl err \<and>
                posts (snd (NotifySuccess env api s p)) = []
            | Inr f \<Rightarrow>
                (\<exists>m. getSlackMessage (p\<lparr>Log := Permalink f\<rparr>) = Inr m \<and>
                     map (\<lambda>r. map Text (post_attachments (snd r)))
                       (posts (snd (NotifySuccess env api s p))) = [[m]]))"
proof -
  let ?s1 = "with_channel (env ''SLACK_SUCCEED_CHANNEL'') s"
  show ?thesis
  proof (cases "UploadFile_response api (token s) (upload_request ?s1 p)")
    case (Inl err)
    with assms show ?thesis
      by (simp add: NotifySuccess_upload_failed)
  next
    case (Inr f)
    obtain m where m: "getSlackMessage (p\<lparr>Log := Permalink f\<rparr>) = Inr m"
      using getSlackMessage_total by blast
    from assms Inr show ?thesis
      by (simp add: NotifySuccess_uploaded trace_notify m post_request_def)
  qed
qed

lemma channels_NotifyFailed:
  "set (channels_used (snd (NotifyFailed env api s p))) =
     {channel (with_channel (env ''SLACK_FAILED_CHANNEL'') s)}"
proof (cases "Log p = []")
  case True
  then show ?thesis by (simp add: NotifyFailed_no_log trace_notify)
next
  case False
  let ?s1 = "with_channel (env ''SLACK_FAILED_CHANNEL'') s"
  show ?thesis
  proof (cases "UploadFile_response api (token s) (upload_request ?s1 p)")
    case (Inl err)
    with False show ?thesis
      by (simp add: NotifyFailed_upload_failed channels_used_def upload_request_def)
  next
    case (Inr f)
    with False have "channels_used (snd (NotifyFailed env api s p)) = [channel ?s1, channel ?s1]"
      using trace_notify(1) [of api ?s1]
      by (simp add: NotifyFailed_uploaded channels_used_def upload_request_def)
    then show ?thesis by simp
  qed
qed

lemma NotifyFailed_with_log:
  assumes "Log p \<noteq> []"
  shows "\<exists>tok params.
           uploads (snd (NotifyFailed env api s p)) = [(tok, params)] \<and>
           posts_follow_upload False (snd (NotifyFailed env api s p)) \<and>
           (case UploadFile_response api tok params of
              Inl err \<Rightarrow>
                fst (NotifyFailed env api s p) = Inl err \<and>
                posts (snd (NotifyFailed env api s p)) = []
            | Inr f \<Rightarrow>
                (\<exists>m. getSlackMessage (p\<lparr>Log := Permalink f\<rparr>) = Inr m \<and>
                     map (\<lambda>r. map Text (post_attachments (snd r)))
                       (posts (snd (NotifyFailed env api s p))) = [[m]]))"
proof -
  let ?s1 = "with_channel (env ''SLACK_FAILED_CHANNEL'') s"
  show ?thesis
  proof (cases "UploadFile_response api (token s) (upload_request ?s1 p)")
    case (Inl err)
    with assms show ?thesis
      by (simp add: NotifyFailed_upload_failed)
  next
    case (Inr f)
    obtain m where m: "getSlackMessage (p\<lparr>Log := Permalink f\<rparr>) = Inr m"
      using getSlackMessage_total by blast
    from assms Inr show ?thesis
      by (simp add: NotifyFailed_uploaded trace_notify m post_request_def)
  qed
qed

lemma NotifySuccess_upload_then_post:
  assumes "Log p \<noteq> []"
  shows "\<exists>tok params.
           uploads (snd (NotifySuccess env api s p)) = [(tok, params)] \<and>
           Content params = Log p \<and>
           posts_follow_upload False (snd (NotifySuccess env api s p)) \<and>
           (case UploadFile_response api tok params of
              Inl err \<Rightarrow> posts (snd (NotifySuccess env api s p)) = []
            | Inr f \<Rightarrow>
                (\<exists>m post. getSlackMessage (p\<lparr>Log := Permalink f\<rparr>) = Inr m \<and>
                     posts (snd (NotifySuccess env api s p)) = [post] \<and>
                     map Text (post_attachments (snd post)) = [m]))"
proof -
  let ?s1 = "with_channel (env ''SLACK_SUCCEED_CHANNEL'') s"
  have content: "Content (upload_request ?s1 p) = Log p"
    by (simp add: upload_request_def)
  show ?thesis
  proof (cases "UploadFile_response api (token s) (upload_request ?s1 p)")
    case (Inl err)
    with assms content show ?thesis
      by (simp add: NotifySuccess_upload_failed)
  next
    case (Inr f)
    obtain m where m: "getSlackMessage (p\<lparr>Log := Permalink f\<rparr>) = Inr m"
      using getSlackMessage_total by blast
    from assms Inr content show ?thesis
      by (simp add: NotifySuccess_uploaded trace_notify m post_request_def)
  qed
qed

lemma NotifyFailed_upload_then_post:
  assumes "Log p \<noteq> []"
  shows "\<exists>tok params.
           uploads (snd (NotifyFailed env api s p)) = [(tok, params)] \<and>
           Content params = Log p \<and>
           posts_follow_upload False (snd (NotifyFailed env api s p)) \<and>
           (case UploadFile_response api tok params of
              Inl err \<Rightarrow> posts (snd (NotifyFailed env api s p)) = []
            | Inr f \<Rightarrow>
                (\<exists>m post. getSlackMessage (p\<lparr>Log := Permalink f\<rparr>) = Inr m \<and>
                     posts (snd (NotifyFailed env api s p)) = [post] \<and>
                     map Text (post_attachments (snd post)) = [m]))"
proof -
  let ?s1 = "with_channel (env ''SLACK_FAILED_CHANNEL'') s"
  have content: "Content (upload_request ?s1 p) = Log p"
    by (simp add: upload_request_def)
  show ?thesis
  proof (cases "UploadFile_response api (token s) (upload_request ?s1 p)")
    case (Inl err)
    with assms content show ?thesis
      by (simp add: NotifyFailed_upload_failed)
  next
    case (Inr f)
    obtain m where m: "getSlackMessage (p\<lparr>Log := Permalink f\<rparr>) = Inr m"
      using getSlackMessage_total by blast
    from assms Inr content show ?thesis
      by (simp add: NotifyFailed_uploaded trace_notify m post_request_def)
  qed
qed

lemma requests_NotifyStart:
  "(\<forall>post \<in> set (posts (snd (NotifyStart env api s p))).
      fst post = token s \<and> post_username (snd post) = username s) \<and>
   (\<forall>up \<in> set (uploads (snd (NotifyStart env api s p))). fst up = token s)"
  by (simp add: NotifyStart_eq trace_notify post_request_def token_with_channel
      username_with_channel)

lemma requests_NotifySuccess:
  "(\<forall>post \<in> set (posts (snd (NotifySuccess env api s p))).
      fst post = token s \<and> post_username (snd post) = username s) \<and>
   (\<forall>up \<in> set (uploads (snd (NotifySuccess env api s p))). fst up = token s)"
proof (cases "Log p = []")
  case True
  then show ?thesis
    by (simp add: NotifySuccess_no_log trace_notify post_request_def token_with_channel
        username_with_channel)
next
  case False
  let ?s1 = "with_channel (env ''SLACK_SUCCEED_CHANNEL'') s"
  show ?thesis
  proof (cases "UploadFile_response api (token s) (upload_request ?s1 p)")
    case (Inl err)
    with False show ?thesis by (simp add: NotifySuccess_upload_failed)
  next
    case (Inr f)
    with False show ?thesis
      by (simp add: NotifySuccess_uploaded trace_notify post_request_def token_with_channel
          username_with_channel)
  qed
qed

lemma requests_NotifyFailed:
  "(\<forall>post \<in> set (posts (snd (NotifyFailed env api s p))).
      fst post = token s \<and> post_username (snd post) = username s) \<and>
   (\<forall>up \<in> set (uploads (snd (NotifyFailed env api s p))). fst up = token s)"
proof (cases "Log p = []")
  case True
  then show ?thesis
    by (simp add: NotifyFailed_no_log trace_notify post_request_def token_with_channel
        username_with_channel)
next
  case False
  let ?s1 = "with_channel (env ''SLACK_FAILED_CHANNEL'') s"
  show ?thesis
  proof (cases "UploadFile_response api (token s) (upload_request ?s1 p)")
    case (Inl err)
    with False show ?thesis by (simp add: NotifyFailed_upload_failed)
  next
    case (Inr f)
    with False show ?thesis
      by (simp add: NotifyFailed_uploaded trace_notify post_request_def token_with_channel
          username_with_channel)
  qed
qed

lemma NewSlack_Returns:
  assumes "NewSlack env0 = Returns s"
  shows "env0 ''SLACK_TOKEN'' \<noteq> []"
    and "token s = env0 ''SLACK_TOKEN''"
    and "channel s = env0 ''SLACK_CHANNEL''"
    and "username s = env0 ''SLACK_USERNAME''"
  using assms by (auto simp add: NewSlack_def Let_def split: if_splits)


section \<open>The metrics notifier\<close>

text \<open>The service check of each event, and the outcome of each event.\<close>

lemma service_checks_SuccessEvent:
  "service_checks (snd (SuccessEvent jobName lib d jobInfo)) =
     [\<lparr>sc_Name = serviceCheckName, Status = Ok, Message = ''Job succeed'', Hostname = hostName,
       sc_Tags = [''job_name:'' @ jobName jobInfo, ''namespace:'' @ job_Namespace jobInfo]\<rparr>]"
  by (simp add: SuccessEvent_def Let_def split: outcome.split sum.split)

lemma service_checks_FailEvent:
  "service_checks (snd (FailEvent jobName lib d jobInfo)) =
     [\<lparr>sc_Name = serviceCheckName, Status = Critical, Message = ''Job failed'', Hostname = hostName,
       sc_Tags = [''job_name:'' @ jobName jobInfo, ''namespace:'' @ job_Namespace jobInfo]\<rparr>]"
  by (simp add: FailEvent_def Let_def split: outcome.split sum.split)

lemma fst_SuccessEvent:
  "fst (SuccessEvent jobName lib d jobInfo) =
     statsd_ServiceCheck lib (client d)
       \<lparr>sc_Name = serviceCheckName, Status = Ok, Message = ''Job succeed'', Hostname = hostName,
        sc_Tags = [''job_name:'' @ jobName jobInfo, ''namespace:'' @ job_Namespace jobInfo]\<rparr>"
  by (simp add: SuccessEvent_def Let_def split: outcome.split sum.split)

lemma fst_FailEvent:
  "fst (FailEvent jobName lib d jobInfo) =
     statsd_ServiceCheck lib (client d)
       \<lparr>sc_Name = serviceCheckName, Status = Critical, Message = ''Job failed'', Hostname = hostName,
        sc_Tags = [''job_name:'' @ jobName jobInfo, ''namespace:'' @ job_Namespace jobInfo]\<rparr>"
  by (simp add: FailEvent_def Let_def split: outcome.split sum.split)

lemma getJobName_example: "getJobName job_example = ''etl-job''"
  by (simp add: getJobName_def job_example_def)


section \<open>The claims about the chat notifier\<close>

text \<open>
  C1. For every call to \<^verbatim>\<open>NotifySuccess\<close> or \<^verbatim>\<open>NotifyFailed\<close> whose parameter has a
  non-empty \<^verbatim>\<open>Log\<close>, the log is uploaded before the message is posted: the call makes
  exactly one upload request, whose content is the log; every post request of the call's
  trace comes after it; a post request is made only if the backend answered the upload
  with a file, and then there is exactly one, and the text of its attachment is the
  rendering of the parameter whose \<^verbatim>\<open>Log\<close> is that file's permalink.
\<close>

theorem upload_precedes_post:
  assumes "Log p \<noteq> []"
  shows "\<forall>r \<in> {NotifySuccess env api s p, NotifyFailed env api s p}.
           \<exists>tok params.
             uploads (snd r) = [(tok, params)] \<and>
             Content params = Log p \<and>
             posts_follow_upload False (snd r) \<and>
             (\<forall>post \<in> set (posts (snd r)).
                \<exists>f m.
                  UploadFile_response api tok params = Inr f \<and>
                  getSlackMessage (p\<lparr>Log := Permalink f\<rparr>) = Inr m \<and>
                  map Text (post_attachments (snd post)) = [m]) \<and>
             (\<forall>f. UploadFile_response api tok params = Inr f \<longrightarrow> length (posts (snd r)) = 1)"
proof -
  have "\<exists>tok params.
             uploads (snd r) = [(tok, params)] \<and>
             Content params = Log p \<and>
             posts_follow_upload False (snd r) \<and>
             (\<forall>post \<in> set (posts (snd r)).
                \<exists>f m.
                  UploadFile_response api tok params = Inr f \<and>
                  getSlackMessage (p\<lparr>Log := Permalink f\<rparr>) = Inr m \<and>
                  map Text (post_attachments (snd post)) = [m]) \<and>
             (\<forall>f. UploadFile_response api tok params = Inr f \<longrightarrow> length (posts (snd r)) = 1)"
    if shape: "\<exists>tok params.
           uploads (snd r) = [(tok, params)] \<and>
           Content params = Log p \<and>
           posts_follow_upload False (snd r) \<and>
           (case UploadFile_response api tok params of
              Inl err \<Rightarrow> posts (snd r) = []
            | Inr f \<Rightarrow>
                (\<exists>m post. getSlackMessage (p\<lparr>Log := Permalink f\<rparr>) = Inr m \<and>
                     posts (snd r) = [post] \<and>
                     map Text (post_attachments (snd post)) = [m]))"
    for r :: "(error + unit) \<times> event list"
  proof -
    from shape obtain tok params where up: "uploads (snd r) = [(tok, params)]"
      and content: "Content params = Log p"
      and order: "posts_follow_upload False (snd r)"
      and rest: "case UploadFile_response api tok params of
              Inl err \<Rightarrow> posts (snd r) = []
            | Inr f \<Rightarrow>
                (\<exists>m post. getSlackMessage (p\<lparr>Log := Permalink f\<rparr>) = Inr m \<and>
                     posts (snd r) = [post] \<and>
                     map Text (post_attachments (snd post)) = [m])"
      by blast
    have "(\<forall>post \<in> set (posts (snd r)).
                \<exists>f m.
                  UploadFile_response api tok params = Inr f \<and>
                  getSlackMessage (p\<lparr>Log := Permalink f\<rparr>) = Inr m \<and>
                  map Text (post_attachments (snd post)) = [m]) \<and>
             (\<forall>f. UploadFile_response api tok params = Inr f \<longrightarrow> length (posts (snd r)) = 1)"
    proof (cases "UploadFile_response api tok params")
      case (Inl err)
      with rest show ?thesis by simp
    next
      case (Inr f)
      with rest obtain m post where "getSlackMessage (p\<lparr>Log := Permalink f\<rparr>) = Inr m"
        and "posts (snd r) = [post]"
        and "map Text (post_attachments (snd post)) = [m]"
        by auto
      with Inr show ?thesis by simp
    qed
    with up content order show ?thesis by blast
  qed
  with NotifySuccess_upload_then_post [OF assms] NotifyFailed_upload_then_post [OF assms]
  show ?thesis by blast
qed

theorem upload_precedes_post_witness:
  "Log param_with_log \<noteq> [] \<and>
   posts_follow_upload False (snd (NotifySuccess env_overrides api_accepting slack_base param_with_log)) \<and>
   posts_follow_upload False (snd (NotifyFailed env_overrides api_accepting slack_base param_with_log)) \<and>
   snd (NotifySuccess env_overrides api_accepting slack_base param_with_log) =
     [Slack_UploadFile ''xoxb-1''
        \<lparr>upload_Title = ''data_etl-job'', Content = ''line 1'', Filetype = ''txt'',
         Channels = [''jobs-ok'']\<rparr>,
      Klog_Infof ''File uploadLog successfully %s'' [''data_etl-job''],
      Slack_PostMessage ''xoxb-1''
        \<lparr>post_channel = ''jobs-ok'', post_text = [], post_escape = True,
         post_attachments =
           [\<lparr>Color = ''good'', Title = ''Job Success'',
             Text = ''\<newline>*JobName*: etl-job\<newline> *Namespace*: data \<newline> *Loglink*: https://files.example/F1 \<newline>''\<rparr>],
         post_username = ''notifier''\<rparr>,
      Klog_Infof ''Message successfully sent to channel %s at %s'' [''jobs-ok'', ''1700000000.000100'']] \<and>
   snd (NotifyFailed env_overrides api_accepting slack_base param_with_log) =
     [Slack_UploadFile ''xoxb-1''
        \<lparr>upload_Title = ''data_etl-job'', Content = ''line 1'', Filetype = ''txt'',
         Channels = [''jobs-ko'']\<rparr>,
      Klog_Infof ''File uploadLog successfully %s'' [''data_etl-job''],
      Slack_PostMessage ''xoxb-1''
        \<lparr>post_channel = ''jobs-ko'', post_text = [], post_escape = True,
         post_attachments =
           [\<lparr>Color = ''danger'', Title = ''Job Failed'',
             Text = ''\<newline>*JobName*: etl-job\<newline> *Namespace*: data \<newline> *Loglink*: https://files.example/F1 \<newline>''\<rparr>],
         post_username = ''notifier''\<rparr>,
      Klog_Infof ''Message successfully sent to channel %s at %s'' [''jobs-ko'', ''1700000000.000100'']]"
proof -
  have nonempty: "Log param_with_log \<noteq> []"
    by (simp add: param_with_log_def)
  from upload_precedes_post [OF nonempty, of env_overrides api_accepting slack_base]
  have order: "posts_follow_upload False
                 (snd (NotifySuccess env_overrides api_accepting slack_base param_with_log))"
    "posts_follow_upload False
                 (snd (NotifyFailed env_overrides api_accepting slack_base param_with_log))"
    by auto
  have success: "snd (NotifySuccess env_overrides api_accepting slack_base param_with_log) =
     [Slack_UploadFile ''xoxb-1''
        \<lparr>upload_Title = ''data_etl-job'', Content = ''line 1'', Filetype = ''txt'',
         Channels = [''jobs-ok'']\<rparr>,
      Klog_Infof ''File uploadLog successfully %s'' [''data_etl-job''],
      Slack_PostMessage ''xoxb-1''
        \<lparr>post_channel = ''jobs-ok'', post_text = [], post_escape = True,
         post_attachments =
           [\<lparr>Color = ''good'', Title = ''Job Success'',
             Text = ''\<newline>*JobName*: etl-job\<newline> *Namespace*: data \<newline> *Loglink*: https://files.example/F1 \<newline>''\<rparr>],
         post_username = ''notifier''\<rparr>,
      Klog_Infof ''Message successfully sent to channel %s at %s'' [''jobs-ok'', ''1700000000.000100'']]"
    by (simp add: Let_def NotifySuccess_def uploadLog_def notify_def getSlackMessage_eq htmlEscaper_def
        htmlReplacementTable_def map_index_def slackColors_def env_overrides_def env_base_def
        env_empty_def api_accepting_def slack_base_def param_with_log_def)
  have failed: "snd (NotifyFailed env_overrides api_accepting slack_base param_with_log) =
     [Slack_UploadFile ''xoxb-1''
        \<lparr>upload_Title = ''data_etl-job'', Content = ''line 1'', Filetype = ''txt'',
         Channels = [''jobs-ko'']\<rparr>,
      Klog_Infof ''File uploadLog successfully %s'' [''data_etl-job''],
      Slack_PostMessage ''xoxb-1''
        \<lparr>post_channel = ''jobs-ko'', post_text = [], post_escape = True,
         post_attachments =
           [\<lparr>Color = ''danger'', Title = ''Job Failed'',
             Text = ''\<newline>*JobName*: etl-job\<newline> *Namespace*: data \<newline> *Loglink*: https://files.example/F1 \<newline>''\<rparr>],
         post_username = ''notifier''\<rparr>,
      Klog_Infof ''Message successfully sent to channel %s at %s'' [''jobs-ko'', ''1700000000.000100'']]"
    by (simp add: Let_def NotifyFailed_def uploadLog_def notify_def getSlackMessage_eq htmlEscaper_def
        htmlReplacementTable_def map_index_def slackColors_def env_overrides_def env_base_def
        env_empty_def api_accepting_def slack_base_def param_with_log_def)
  from nonempty order success failed show ?thesis by simp
qed

text \<open>
  C2. For every call to \<^verbatim>\<open>NotifySuccess\<close> or \<^verbatim>\<open>NotifyFailed\<close> whose parameter has a
  non-empty \<^verbatim>\<open>Log\<close>, the call makes one upload request, and if the backend answers it
  with an error then the call returns that error and its trace has no post request.
\<close>

theorem upload_failure_aborts:
  assumes "Log p \<noteq> []"
  shows "\<forall>r \<in> {NotifySuccess env api s p, NotifyFailed env api s p}.
           \<exists>tok params.
             uploads (snd r) = [(tok, params)] \<and>
             (\<forall>err. UploadFile_response api tok params = Inl err \<longrightarrow>
                    fst r = Inl err \<and> posts (snd r) = [])"
proof -
  have "\<exists>tok params.
             uploads (snd r) = [(tok, params)] \<and>
             (\<forall>err. UploadFile_response api tok params = Inl err \<longrightarrow>
                    fst r = Inl err \<and> posts (snd r) = [])"
    if shape: "\<exists>tok params.
           uploads (snd r) = [(tok, params)] \<and>
           posts_follow_upload False (snd r) \<and>
           (case UploadFile_response api tok params of
              Inl err \<Rightarrow> fst r = Inl err \<and> posts (snd r) = []
            | Inr f \<Rightarrow>
                (\<exists>m. getSlackMessage (p\<lparr>Log := Permalink f\<rparr>) = Inr m \<and>
                     map (\<lambda>r. map Text (post_attachments (snd r))) (posts (snd r)) = [[m]]))"
    for r :: "(error + unit) \<times> event list"
  proof -
    from shape obtain tok params where up: "uploads (snd r) = [(tok, params)]"
      and rest: "case UploadFile_response api tok params of
              Inl err \<Rightarrow> fst r = Inl err \<and> posts (snd r) = []
            | Inr f \<Rightarrow>
                (\<exists>m. getSlackMessage (p\<lparr>Log := Permalink f\<rparr>) = Inr m \<and>
                     map (\<lambda>r. map Text (post_attachments (snd r))) (posts (snd r)) = [[m]])"
      by blast
    have "\<forall>err. UploadFile_response api tok params = Inl err \<longrightarrow>
                    fst r = Inl err \<and> posts (snd r) = []"
      using rest by (auto split: sum.splits)
    with up show ?thesis by blast
  qed
  with NotifySuccess_with_log [OF assms] NotifyFailed_with_log [OF assms]
  show ?thesis by blast
qed

theorem upload_failure_aborts_witness:
  "Log param_with_log \<noteq> [] \<and>
   UploadFile_response api_refusing_uploads ''xoxb-1''
     \<lparr>upload_Title = ''data_etl-job'', Content = ''line 1'', Filetype = ''txt'',
      Channels = [''jobs-ko'']\<rparr> = Inl (Error ''upload refused'') \<and>
   uploads (snd (NotifyFailed env_overrides api_refusing_uploads slack_base param_with_log)) =
     [(''xoxb-1'', \<lparr>upload_Title = ''data_etl-job'', Content = ''line 1'', Filetype = ''txt'',
                    Channels = [''jobs-ko'']\<rparr>)] \<and>
   fst (NotifyFailed env_overrides api_refusing_uploads slack_base param_with_log) =
     Inl (Error ''upload refused'') \<and>
   posts (snd (NotifyFailed env_overrides api_refusing_uploads slack_base param_with_log)) = []"
proof -
  have nonempty: "Log param_with_log \<noteq> []"
    by (simp add: param_with_log_def)
  have ups: "uploads (snd (NotifyFailed env_overrides api_refusing_uploads slack_base param_with_log)) =
     [(''xoxb-1'', \<lparr>upload_Title = ''data_etl-job'', Content = ''line 1'', Filetype = ''txt'',
                    Channels = [''jobs-ko'']\<rparr>)]"
    by (simp add: Let_def NotifyFailed_def uploadLog_def env_overrides_def env_base_def
        env_empty_def api_refusing_uploads_def slack_base_def param_with_log_def)
  have refused: "UploadFile_response api_refusing_uploads ''xoxb-1''
     \<lparr>upload_Title = ''data_etl-job'', Content = ''line 1'', Filetype = ''txt'',
      Channels = [''jobs-ko'']\<rparr> = Inl (Error ''upload refused'')"
    by (simp add: api_refusing_uploads_def)
  from upload_failure_aborts [OF nonempty, of env_overrides api_refusing_uploads slack_base]
  have "fst (NotifyFailed env_overrides api_refusing_uploads slack_base param_with_log) =
          Inl (Error ''upload refused'') \<and>
        posts (snd (NotifyFailed env_overrides api_refusing_uploads slack_base param_with_log)) = []"
    using ups refused by auto
  with nonempty ups refused show ?thesis by simp
qed

text \<open>
  C3. Every notification addresses one channel, chosen by the kind of event:
  \<^verbatim>\<open>NotifyStart\<close> and \<^verbatim>\<open>NotifySuccess\<close> use the value of \<^verbatim>\<open>SLACK_SUCCEED_CHANNEL\<close> when
  it is not empty and the notifier's channel otherwise, \<^verbatim>\<open>NotifyFailed\<close> the value of
  \<^verbatim>\<open>SLACK_FAILED_CHANNEL\<close> when it is not empty and the notifier's channel otherwise.
\<close>

theorem channel_by_event_kind:
  "set (channels_used (snd (NotifyStart env api s p))) =
     {if env ''SLACK_SUCCEED_CHANNEL'' \<noteq> [] then env ''SLACK_SUCCEED_CHANNEL'' else channel s} \<and>
   set (channels_used (snd (NotifySuccess env api s p))) =
     {if env ''SLACK_SUCCEED_CHANNEL'' \<noteq> [] then env ''SLACK_SUCCEED_CHANNEL'' else channel s} \<and>
   set (channels_used (snd (NotifyFailed env api s p))) =
     {if env ''SLACK_FAILED_CHANNEL'' \<noteq> [] then env ''SLACK_FAILED_CHANNEL'' else channel s}"
  by (simp add: channels_NotifyStart channels_NotifySuccess channels_NotifyFailed
      channel_with_channel)

theorem channel_by_event_kind_witness:
  "set (channels_used (snd (NotifyStart env_overrides api_accepting slack_base param_with_log))) = {''jobs-ok''} \<and>
   set (channels_used (snd (NotifySuccess env_overrides api_accepting slack_base param_with_log))) = {''jobs-ok''} \<and>
   set (channels_used (snd (NotifyFailed env_overrides api_accepting slack_base param_with_log))) = {''jobs-ko''} \<and>
   set (channels_used (snd (NotifyStart env_base api_accepting slack_base param_with_log))) = {''general''} \<and>
   set (channels_used (snd (NotifySuccess env_base api_accepting slack_base param_with_log))) = {''general''} \<and>
   set (channels_used (snd (NotifyFailed env_base api_accepting slack_base param_with_log))) = {''general''}"
  using channel_by_event_kind [of env_overrides api_accepting slack_base param_with_log]
    channel_by_event_kind [of env_base api_accepting slack_base param_with_log]
  by (simp add: env_overrides_def env_base_def env_empty_def slack_base_def)

text \<open>
  C5 (amended). The token, the default channel and the display name are read once,
  when the notifier is constructed, and every request of a later call carries the token
  and the name of that moment whatever the environment is at the call. The two channel
  overrides are not captured: each call reads \<^verbatim>\<open>SLACK_SUCCEED_CHANNEL\<close>
  (\<^verbatim>\<open>NotifyStart\<close>, \<^verbatim>\<open>NotifySuccess\<close>) or \<^verbatim>\<open>SLACK_FAILED_CHANNEL\<close> (\<^verbatim>\<open>NotifyFailed\<close>) from
  the environment of the call, and its channel is that value when it is not empty and
  the default channel of the construction otherwise.
\<close>

theorem configuration_captured:
  assumes "NewSlack env0 = Returns s"
  shows "(\<forall>r \<in> {NotifyStart env api s p, NotifySuccess env api s p, NotifyFailed env api s p}.
            (\<forall>post \<in> set (posts (snd r)).
               fst post = env0 ''SLACK_TOKEN'' \<and>
               post_username (snd post) = env0 ''SLACK_USERNAME'') \<and>
            (\<forall>up \<in> set (uploads (snd r)). fst up = env0 ''SLACK_TOKEN'')) \<and>
         set (channels_used (snd (NotifyStart env api s p))) =
           {if env ''SLACK_SUCCEED_CHANNEL'' \<noteq> [] then env ''SLACK_SUCCEED_CHANNEL''
            else env0 ''SLACK_CHANNEL''} \<and>
         set (channels_used (snd (NotifySuccess env api s p))) =
           {if env ''SLACK_SUCCEED_CHANNEL'' \<noteq> [] then env ''SLACK_SUCCEED_CHANNEL''
            else env0 ''SLACK_CHANNEL''} \<and>
         set (channels_used (snd (NotifyFailed env api s p))) =
           {if env ''SLACK_FAILED_CHANNEL'' \<noteq> [] then env ''SLACK_FAILED_CHANNEL''
            else env0 ''SLACK_CHANNEL''}"
proof -
  note captured = NewSlack_Returns [OF assms]
  have requests:
    "\<forall>r \<in> {NotifyStart env api s p, NotifySuccess env api s p, NotifyFailed env api s p}.
       (\<forall>post \<in> set (posts (snd r)).
          fst post = env0 ''SLACK_TOKEN'' \<and>
          post_username (snd post) = env0 ''SLACK_USERNAME'') \<and>
       (\<forall>up \<in> set (uploads (snd r)). fst up = env0 ''SLACK_TOKEN'')"
    using requests_NotifyStart [of env api s p] requests_NotifySuccess [of env api s p]
      requests_NotifyFailed [of env api s p]
    by (simp add: captured)
  have channels:
    "set (channels_used (snd (NotifyStart env api s p))) =
           {if env ''SLACK_SUCCEED_CHANNEL'' \<noteq> [] then env ''SLACK_SUCCEED_CHANNEL''
            else env0 ''SLACK_CHANNEL''}"
    "set (channels_used (snd (NotifySuccess env api s p))) =
           {if env ''SLACK_SUCCEED_CHANNEL'' \<noteq> [] then env ''SLACK_SUCCEED_CHANNEL''
            else env0 ''SLACK_CHANNEL''}"
    "set (channels_used (snd (NotifyFailed env api s p))) =
           {if env ''SLACK_FAILED_CHANNEL'' \<noteq> [] then env ''SLACK_FAILED_CHANNEL''
            else env0 ''SLACK_CHANNEL''}"
    by (simp_all add: channels_NotifyStart channels_NotifySuccess channels_NotifyFailed
        channel_with_channel captured)
  from requests channels show ?thesis by blast
qed

theorem configuration_captured_witness:
  "NewSlack env_base = Returns slack_base \<and>
   set (channels_used (snd (NotifyFailed env_overrides api_accepting slack_base param_with_log))) =
     {''jobs-ko''} \<and>
   set (channels_used (snd (NotifyFailed env_empty api_accepting slack_base param_with_log))) =
     {''general''} \<and>
   map fst (posts (snd (NotifyFailed env_empty api_accepting slack_base param_with_log))) =
     [''xoxb-1'']"
proof -
  have built: "NewSlack env_base = Returns slack_base"
    by (simp add: NewSlack_def Let_def env_base_def env_empty_def slack_base_def)
  have posted: "map fst (posts (snd (NotifyFailed env_empty api_accepting slack_base param_with_log))) =
     [''xoxb-1'']"
    by (simp add: Let_def NotifyFailed_def uploadLog_def notify_def getSlackMessage_eq
        env_empty_def api_accepting_def slack_base_def param_with_log_def)
  from configuration_captured [OF built, of env_overrides api_accepting param_with_log]
    configuration_captured [OF built, of env_empty api_accepting param_with_log]
  have "set (channels_used (snd (NotifyFailed env_overrides api_accepting slack_base param_with_log))) =
     {''jobs-ko''}"
    and "set (channels_used (snd (NotifyFailed env_empty api_accepting slack_base param_with_log))) =
     {''general''}"
    by (simp_all add: env_overrides_def env_base_def env_empty_def)
  with built posted show ?thesis by simp
qed

text \<open>
  C5 as stated fails: one notifier, built in an environment with no override, and one
  parameter; a call in that environment addresses the default channel, and a call after
  \<^verbatim>\<open>SLACK_SUCCEED_CHANNEL\<close> has been set addresses the override.
\<close>

theorem channel_follows_environment_of_call:
  "NewSlack env_base = Returns slack_base \<and>
   channels_used (snd (NotifySuccess env_base api_accepting slack_base param_with_log)) =
     [''general'', ''general''] \<and>
   channels_used (snd (NotifySuccess env_overrides api_accepting slack_base param_with_log)) =
     [''jobs-ok'', ''jobs-ok'']"
  by (simp add: Let_def NewSlack_def NotifySuccess_def uploadLog_def notify_def getSlackMessage_eq
      channels_used_def env_overrides_def env_base_def env_empty_def api_accepting_def
      slack_base_def param_with_log_def)

text \<open>
  C7. If \<^verbatim>\<open>SLACK_TOKEN\<close> is empty in the environment of the construction,
  \<^verbatim>\<open>NewSlack\<close> panics; if it is not empty, \<^verbatim>\<open>NewSlack\<close> returns a notifier that holds
  that token.
\<close>

theorem token_required:
  "(env ''SLACK_TOKEN'' = [] \<longrightarrow> NewSlack env = Panics ''please set slack token'') \<and>
   (env ''SLACK_TOKEN'' \<noteq> [] \<longrightarrow>
      (\<exists>s. NewSlack env = Returns s \<and> token s = env ''SLACK_TOKEN''))"
  by (simp add: NewSlack_def Let_def)

theorem token_required_witness:
  "env_empty ''SLACK_TOKEN'' = [] \<and>
   NewSlack env_empty = Panics ''please set slack token'' \<and>
   env_base ''SLACK_TOKEN'' \<noteq> [] \<and>
   NewSlack env_base = Returns \<lparr>token = ''xoxb-1'', channel = ''general'', username = ''notifier''\<rparr>"
proof -
  have absent: "env_empty ''SLACK_TOKEN'' = []"
    by (simp add: env_empty_def)
  have present: "env_base ''SLACK_TOKEN'' \<noteq> []"
    by (simp add: env_base_def)
  from token_required [of env_empty] absent
  have fatal: "NewSlack env_empty = Panics ''please set slack token''" by simp
  from token_required [of env_base] present
  obtain s where s: "NewSlack env_base = Returns s" and "token s = env_base ''SLACK_TOKEN''"
    by blast
  have "NewSlack env_base =
          Returns \<lparr>token = ''xoxb-1'', channel = ''general'', username = ''notifier''\<rparr>"
    by (simp add: NewSlack_def Let_def env_base_def env_empty_def)
  with absent present fatal show ?thesis by simp
qed

section \<open>The claims about the rendered message\<close>

text \<open>
  C4 (amended). For every parameter the rendering succeeds, and the text is a line feed
  followed by three segments in a fixed order, each ended by a line feed: the
  \<^verbatim>\<open>JobName\<close> label and value, always; the \<^verbatim>\<open>Namespace\<close> label and value if
  \<^verbatim>\<open>Namespace\<close> is not empty and nothing otherwise; the \<^verbatim>\<open>Loglink\<close> label and value if
  \<^verbatim>\<open>Log\<close> is not empty and nothing otherwise. When no field holds a line feed, the
  lines of the text that are not blank are exactly the \<^verbatim>\<open>JobName\<close> line, then the
  \<^verbatim>\<open>Namespace\<close> line if \<^verbatim>\<open>Namespace\<close> is not empty, then the \<^verbatim>\<open>Loglink\<close> line if
  \<^verbatim>\<open>Log\<close> is not empty, each on a line of its own.
\<close>

theorem lines_in_fixed_order:
  "\<exists>out. getSlackMessage p = Inr out \<and>
     out = ''\<newline>'' @ (''*JobName*: '' @ htmlEscaper (JobName p)) @ ''\<newline>'' @
           (if Namespace p \<noteq> [] then '' *Namespace*: '' @ htmlEscaper (Namespace p) @ '' '' else []) @
           ''\<newline>'' @
           (if Log p \<noteq> [] then '' *Loglink*: '' @ htmlEscaper (Log p) @ '' '' else []) @
           ''\<newline>'' \<and>
     (line_feed \<notin> set (JobName p) \<union> set (Namespace p) \<union> set (Log p) \<longrightarrow>
        filter (\<lambda>l. l \<noteq> []) (lines_of out) =
          [''*JobName*: '' @ htmlEscaper (JobName p)] @
          (if Namespace p \<noteq> [] then ['' *Namespace*: '' @ htmlEscaper (Namespace p) @ '' ''] else []) @
          (if Log p \<noteq> [] then ['' *Loglink*: '' @ htmlEscaper (Log p) @ '' ''] else []))"
proof -
  obtain out where out: "getSlackMessage p = Inr out"
    using getSlackMessage_total by blast
  then have sel: "projr (getSlackMessage p) = out" by simp
  have rendered: "out = ''\<newline>'' @ (''*JobName*: '' @ htmlEscaper (JobName p)) @ ''\<newline>'' @
           (if Namespace p \<noteq> [] then '' *Namespace*: '' @ htmlEscaper (Namespace p) @ '' '' else []) @
           ''\<newline>'' @
           (if Log p \<noteq> [] then '' *Loglink*: '' @ htmlEscaper (Log p) @ '' '' else []) @
           ''\<newline>''"
    using out by (simp add: getSlackMessage_eq)
  have "filter (\<lambda>l. l \<noteq> []) (lines_of out) =
          [''*JobName*: '' @ htmlEscaper (JobName p)] @
          (if Namespace p \<noteq> [] then ['' *Namespace*: '' @ htmlEscaper (Namespace p) @ '' ''] else []) @
          (if Log p \<noteq> [] then ['' *Loglink*: '' @ htmlEscaper (Log p) @ '' ''] else [])"
    if "line_feed \<notin> set (JobName p) \<union> set (Namespace p) \<union> set (Log p)"
    using rendered_lines [OF that] by (simp add: sel)
  with out rendered show ?thesis by blast
qed

theorem lines_in_fixed_order_witness:
  "line_feed \<notin> set (JobName param_with_log) \<union> set (Namespace param_with_log) \<union> set (Log param_with_log) \<and>
   getSlackMessage param_with_log =
     Inr ''\<newline>*JobName*: etl-job\<newline> *Namespace*: data \<newline> *Loglink*: line 1 \<newline>'' \<and>
   filter (\<lambda>l. l \<noteq> [])
     (lines_of ''\<newline>*JobName*: etl-job\<newline> *Namespace*: data \<newline> *Loglink*: line 1 \<newline>'') =
     [''*JobName*: etl-job'', '' *Namespace*: data '', '' *Loglink*: line 1 '']"
proof -
  have plain: "line_feed \<notin> set (JobName param_with_log) \<union> set (Namespace param_with_log) \<union> set (Log param_with_log)"
    by (simp add: param_with_log_def line_feed_def)
  have escaped: "htmlEscaper ''etl-job'' = ''etl-job''" "htmlEscaper ''data'' = ''data''"
    "htmlEscaper ''line 1'' = ''line 1''"
    by (simp_all add: htmlEscaper_def htmlReplacementTable_def)
  have rendered: "getSlackMessage param_with_log =
     Inr ''\<newline>*JobName*: etl-job\<newline> *Namespace*: data \<newline> *Loglink*: line 1 \<newline>''"
    by (simp add: getSlackMessage_eq param_with_log_def escaped)
  from lines_in_fixed_order [of param_with_log] plain rendered
  have "filter (\<lambda>l. l \<noteq> [])
     (lines_of ''\<newline>*JobName*: etl-job\<newline> *Namespace*: data \<newline> *Loglink*: line 1 \<newline>'') =
     [''*JobName*: etl-job'', '' *Namespace*: data '', '' *Loglink*: line 1 '']"
    using escaped by (auto simp add: param_with_log_def)
  with plain rendered show ?thesis by simp
qed

text \<open>
  C4 as stated fails for a field that holds a line feed: the escaper keeps line feeds,
  so the value is copied with them. With an empty \<^verbatim>\<open>Namespace\<close> and a \<^verbatim>\<open>Log\<close> that
  holds a line feed followed by \<^verbatim>\<open> *Namespace*: prod\<close>, the text has a \<^verbatim>\<open>Namespace\<close>
  line although \<^verbatim>\<open>Namespace\<close> is empty, and it comes after the \<^verbatim>\<open>Loglink\<close> line.
\<close>

theorem field_line_feed_forges_line:
  "Namespace param_forged_line = [] \<and>
   getSlackMessage param_forged_line =
     Inr ''\<newline>*JobName*: etl-job\<newline>\<newline> *Loglink*: l1\<newline> *Namespace*: prod \<newline>'' \<and>
   filter (\<lambda>l. l \<noteq> [])
     (lines_of ''\<newline>*JobName*: etl-job\<newline>\<newline> *Loglink*: l1\<newline> *Namespace*: prod \<newline>'') =
     [''*JobName*: etl-job'', '' *Loglink*: l1'', '' *Namespace*: prod '']"
  by (simp add: param_forged_line_def getSlackMessage_eq htmlEscaper_def htmlReplacementTable_def
      lines_of_def line_feed_def)

text \<open>
  C8. The rendering escapes the field values for HTML: the text holds none of the
  characters \<^verbatim>\<open><\<close>, \<^verbatim>\<open>>\<close>, double quote and single quote, every \<^verbatim>\<open>&\<close> in it starts
  an entity, and for every character of \<^verbatim>\<open>JobName\<close>, \<^verbatim>\<open>Namespace\<close> or \<^verbatim>\<open>Log\<close> that
  the escaper's table replaces, the text holds the replacement (\<^verbatim>\<open>&lt;\<close> for \<^verbatim>\<open><\<close>,
  \<^verbatim>\<open>&gt;\<close> for \<^verbatim>\<open>>\<close>, \<^verbatim>\<open>&amp;\<close> for \<^verbatim>\<open>&\<close>, \<^verbatim>\<open>&#34;\<close> and \<^verbatim>\<open>&#39;\<close> for the quotes).
\<close>

theorem fields_html_escaped:
  "\<exists>out. getSlackMessage p = Inr out \<and>
     well_escaped out \<and>
     (\<forall>c \<in> set out. c \<notin> {CHR ''<'', CHR ''>'', CHR 0x22, CHR 0x27}) \<and>
     (\<forall>c \<in> set (JobName p) \<union> set (Namespace p) \<union> set (Log p).
        \<forall>e. htmlReplacementTable c = Some e \<longrightarrow> (\<exists>pre post. out = pre @ e @ post)) \<and>
     htmlReplacementTable (CHR ''<'') = Some ''&lt;'' \<and>
     htmlReplacementTable (CHR ''>'') = Some ''&gt;'' \<and>
     htmlReplacementTable (CHR ''&'') = Some ''&amp;'' \<and>
     htmlReplacementTable (CHR 0x22) = Some ''&#34;'' \<and>
     htmlReplacementTable (CHR 0x27) = Some ''&#39;''"
proof -
  obtain out where out: "getSlackMessage p = Inr out"
    using getSlackMessage_total by blast
  then have sel: "projr (getSlackMessage p) = out" by simp
  have escaped: "well_escaped out"
    using rendered_well_escaped [of p] by (simp only: sel)
  have literal: "\<forall>c \<in> set out. c \<notin> {CHR ''<'', CHR ''>'', CHR 0x22, CHR 0x27}"
  proof
    fix c assume "c \<in> set out"
    from well_escaped_no_markup [OF escaped this]
    show "c \<notin> {CHR ''<'', CHR ''>'', CHR 0x22, CHR 0x27}"
      by (auto simp add: htmlReplacementTable_def)
  qed
  have entity: "\<forall>c \<in> set (JobName p) \<union> set (Namespace p) \<union> set (Log p).
        \<forall>e. htmlReplacementTable c = Some e \<longrightarrow> (\<exists>pre post. out = pre @ e @ post)"
    using rendered_contains [of _ p] by (simp only: sel) blast
  have table: "htmlReplacementTable (CHR ''<'') = Some ''&lt;''"
    "htmlReplacementTable (CHR ''>'') = Some ''&gt;''"
    "htmlReplacementTable (CHR ''&'') = Some ''&amp;''"
    "htmlReplacementTable (CHR 0x22) = Some ''&#34;''"
    "htmlReplacementTable (CHR 0x27) = Some ''&#39;''"
    by (simp_all add: htmlReplacementTable_def)
  from out escaped literal entity table show ?thesis by blast
qed

theorem fields_html_escaped_witness:
  "CHR ''<'' \<in> set (JobName param_markup) \<and>
   getSlackMessage param_markup =
     Inr (''\<newline>*JobName*: a&lt;b&gt;&amp;c\<newline>\<newline> *Loglink*: &#34;x&#39; \<newline>'') \<and>
   well_escaped (''\<newline>*JobName*: a&lt;b&gt;&amp;c\<newline>\<newline> *Loglink*: &#34;x&#39; \<newline>'') \<and>
   CHR ''<'' \<notin> set (''\<newline>*JobName*: a&lt;b&gt;&amp;c\<newline>\<newline> *Loglink*: &#34;x&#39; \<newline>'')"
proof -
  have present: "CHR ''<'' \<in> set (JobName param_markup)"
    by (simp add: param_markup_def)
  have rendered: "getSlackMessage param_markup =
     Inr (''\<newline>*JobName*: a&lt;b&gt;&amp;c\<newline>\<newline> *Loglink*: &#34;x&#39; \<newline>'')"
    by (simp add: getSlackMessage_eq param_markup_def htmlEscaper_def htmlReplacementTable_def)
  from fields_html_escaped [of param_markup] present rendered show ?thesis
    by auto
qed



section \<open>The claims about the metrics notifier\<close>

text \<open>
  C6. For every \<^verbatim>\<open>JobInfo\<close>, \<^verbatim>\<open>SuccessEvent\<close> hands the statsd client one service
  check named \<^verbatim>\<open>kube_job_notifier.job.status\<close> with the status \<^verbatim>\<open>Ok\<close>, and
  \<^verbatim>\<open>FailEvent\<close> one with the same name and the status \<^verbatim>\<open>Critical\<close>, each tagged
  \<^verbatim>\<open>job_name:\<close> with what \<^verbatim>\<open>getJobName\<close> gives for the job and \<^verbatim>\<open>namespace:\<close> with the
  job's namespace, whatever \<^verbatim>\<open>getJobName\<close> is; with the \<^verbatim>\<open>getJobName\<close> modelled from the
  spec, the job \<^verbatim>\<open>etl-job-27x9k\<close> of the namespace \<^verbatim>\<open>data\<close> is tagged
  \<^verbatim>\<open>job_name:etl-job\<close> and \<^verbatim>\<open>namespace:data\<close>.
\<close>

theorem service_check_by_outcome:
  "service_checks (snd (SuccessEvent jobName lib d jobInfo)) =
     [\<lparr>sc_Name = ''kube_job_notifier.job.status'', Status = Ok, Message = ''Job succeed'',
       Hostname = ''kube-job-notifier'',
       sc_Tags = [''job_name:'' @ jobName jobInfo, ''namespace:'' @ job_Namespace jobInfo]\<rparr>] \<and>
   service_checks (snd (FailEvent jobName lib d jobInfo)) =
     [\<lparr>sc_Name = ''kube_job_notifier.job.status'', Status = Critical, Message = ''Job failed'',
       Hostname = ''kube-job-notifier'',
       sc_Tags = [''job_name:'' @ jobName jobInfo, ''namespace:'' @ job_Namespace jobInfo]\<rparr>] \<and>
   service_checks
     (snd (SuccessEvent getJobName lib d \<lparr>job_Name = ''etl-job-27x9k'', job_Namespace = ''data''\<rparr>)) =
     [\<lparr>sc_Name = ''kube_job_notifier.job.status'', Status = Ok, Message = ''Job succeed'',
       Hostname = ''kube-job-notifier'',
       sc_Tags = [''job_name:etl-job'', ''namespace:data'']\<rparr>]"
  using getJobName_example
  by (simp add: service_checks_SuccessEvent service_checks_FailEvent serviceCheckName_def
      hostName_def job_example_def)

theorem service_check_by_outcome_witness:
  "service_checks (snd (FailEvent getJobName guarded_statsd \<lparr>client = None\<rparr> job_example)) =
     [\<lparr>sc_Name = ''kube_job_notifier.job.status'', Status = Critical, Message = ''Job failed'',
       Hostname = ''kube-job-notifier'',
       sc_Tags = [''job_name:etl-job'', ''namespace:data'']\<rparr>]"
  using service_check_by_outcome [of getJobName guarded_statsd "\<lparr>client = None\<rparr>" job_example]
    getJobName_example
  by (simp add: job_example_def)

text \<open>
  C10 (amended). If \<^verbatim>\<open>statsd.New\<close> fails and gives the nil client, \<^verbatim>\<open>newDatadog\<close>
  only logs the error and goes on. When \<^verbatim>\<open>DD_TAGS\<close> or \<^verbatim>\<open>DD_NAMESPACE\<close> is not empty,
  the assignment through the nil client panics with a nil dereference inside
  \<^verbatim>\<open>newDatadog\<close>; otherwise \<^verbatim>\<open>newDatadog\<close> returns a notifier whose client is nil.
  \<^verbatim>\<open>SuccessEvent\<close> and \<^verbatim>\<open>FailEvent\<close> have no check of their own: on that notifier they
  call \<^verbatim>\<open>ServiceCheck\<close> on the nil client, and their outcome is the outcome of the
  library's method on the nil receiver, a panic or not as the library decides.
\<close>

theorem unguarded_nil_client:
  assumes "statsd_New lib defaultStatsAddrUDS = (None, Some e)"
  shows "newDatadog env lib =
           (if env ''DD_TAGS'' \<noteq> [] \<or> env ''DD_NAMESPACE'' \<noteq> [] then Panics nil_dereference
            else Returns \<lparr>client = None\<rparr>,
            [Klog_Errorf ''Failed create statsd client. error: %v'' [error_string e]]) \<and>
         fst (SuccessEvent jobName lib \<lparr>client = None\<rparr> jobInfo) =
           statsd_ServiceCheck lib None
             \<lparr>sc_Name = serviceCheckName, Status = Ok, Message = ''Job succeed'',
              Hostname = hostName,
              sc_Tags = [''job_name:'' @ jobName jobInfo, ''namespace:'' @ job_Namespace jobInfo]\<rparr> \<and>
         fst (FailEvent jobName lib \<lparr>client = None\<rparr> jobInfo) =
           statsd_ServiceCheck lib None
             \<lparr>sc_Name = serviceCheckName, Status = Critical, Message = ''Job failed'',
              Hostname = hostName,
              sc_Tags = [''job_name:'' @ jobName jobInfo, ''namespace:'' @ job_Namespace jobInfo]\<rparr>"
proof -
  have "newDatadog env lib =
           (if env ''DD_TAGS'' \<noteq> [] \<or> env ''DD_NAMESPACE'' \<noteq> [] then Panics nil_dereference
            else Returns \<lparr>client = None\<rparr>,
            [Klog_Errorf ''Failed create statsd client. error: %v'' [error_string e]])"
    using assms by (simp add: newDatadog_def Let_def)
  then show ?thesis by (simp add: fst_SuccessEvent fst_FailEvent)
qed

theorem unguarded_nil_client_witness:
  "statsd_New guarded_statsd defaultStatsAddrUDS = (None, Some (Error ''dial failed'')) \<and>
   newDatadog (env_empty(''DD_TAGS'' := ''team:data'')) guarded_statsd =
     (Panics nil_dereference, [Klog_Errorf ''Failed create statsd client. error: %v'' [''dial failed'']]) \<and>
   newDatadog env_empty guarded_statsd =
     (Returns \<lparr>client = None\<rparr>, [Klog_Errorf ''Failed create statsd client. error: %v'' [''dial failed'']]) \<and>
   fst (FailEvent job_Name guarded_statsd \<lparr>client = None\<rparr> job_example) =
     Returns (Inl (Error ''statsd client is nil''))"
proof -
  have failed: "statsd_New guarded_statsd defaultStatsAddrUDS = (None, Some (Error ''dial failed''))"
    by (simp add: guarded_statsd_def)
  from unguarded_nil_client [OF failed, of "env_empty(''DD_TAGS'' := ''team:data'')" job_Name job_example]
    unguarded_nil_client [OF failed, of env_empty job_Name job_example]
  show ?thesis
    using failed by (simp add: env_empty_def guarded_statsd_def)
qed

text \<open>
  C10 as stated fails where it says that the emission dereferences the nil pointer:
  with a library that guards the nil receiver, as the imported one does, construction
  after a failed \<^verbatim>\<open>statsd.New\<close> returns the notifier with the nil client, and
  \<^verbatim>\<open>SuccessEvent\<close> on it returns the library's error and does not panic.
\<close>

theorem nil_client_handed_to_library:
  "newDatadog env_empty guarded_statsd =
     (Returns \<lparr>client = None\<rparr>,
      [Klog_Errorf ''Failed create statsd client. error: %v'' [''dial failed'']]) \<and>
   SuccessEvent job_Name guarded_statsd \<lparr>client = None\<rparr> job_example =
     (Returns (Inl (Error ''statsd client is nil'')),
      [Statsd_ServiceCheck None
         \<lparr>sc_Name = ''kube_job_notifier.job.status'', Status = Ok, Message = ''Job succeed'',
          Hostname = ''kube-job-notifier'',
          sc_Tags = [''job_name:etl-job-27x9k'', ''namespace:data'']\<rparr>,
       Klog_Errorf ''Failed subscribe custom event. error: %v'' [''statsd client is nil'']])"
  by (simp add: newDatadog_def SuccessEvent_def Let_def guarded_statsd_def env_empty_def
      job_example_def serviceCheckName_def hostName_def defaultStatsAddrUDS_def)

end
